theory Spec2Isabelle
  imports Main "HOL-Library.Sublist" "HOL-Library.AList"
begin

section \<open>Parsed JSON and the Python operations the client applies to it\<close>

text \<open>
  Every value the client receives from the platform is parsed JSON, which Python holds as
  \<open>None\<close>, \<open>bool\<close>, \<open>int\<close>, \<open>str\<close>, \<open>list\<close> and \<open>dict\<close>. A \<open>dict\<close> is an
  association list in insertion order; lookups take the binding \<open>map_of\<close> finds.
  JSON numbers with a fraction (Python floats) are not part of this model.
\<close>

datatype json =
    JNull
  | JBool bool
  | JInt int
  | JStr string
  | JList "json list"
  | JObj "(string \<times> json) list"

text \<open>
  The exceptions the client's own code can raise on a value of the wrong shape. A call
  that raises is the value \<open>Inl e\<close>; a call that returns \<open>v\<close> is \<open>Inr v\<close>.
\<close>

datatype py_error =
    AttributeError | TypeError | IndexError | KeyError | ValueError
  | LibraryError string
  | NotModelled

text \<open>
  \<open>LibraryError c\<close> is an exception of class \<open>c\<close> that the HTTP library raised and that
  is no \<^verbatim>\<open>RequestException\<close>: no handler of the client catches it.
  \<open>NotModelled\<close> is no exception of Python: it marks the two places where this model stops
  following the code, a dict key that is not a string and a table cell without a value
  read back as a float. Nothing is proved about a run that reaches it.
\<close>

text \<open>Truthiness, as \<^verbatim>\<open>if x:\<close> and \<^verbatim>\<open>not x\<close> test it.\<close>

fun truthy :: "json \<Rightarrow> bool" where
  "truthy JNull = False"
| "truthy (JBool b) = b"
| "truthy (JInt n) = (n \<noteq> 0)"
| "truthy (JStr s) = (s \<noteq> [])"
| "truthy (JList xs) = (xs \<noteq> [])"
| "truthy (JObj kvs) = (kvs \<noteq> [])"

text \<open>\<^verbatim>\<open>x.get(k, d)\<close>: only a dict has the method.\<close>

fun py_get :: "json \<Rightarrow> string \<Rightarrow> json \<Rightarrow> py_error + json" where
  "py_get (JObj kvs) k d = Inr (case map_of kvs k of None \<Rightarrow> d | Some v \<Rightarrow> v)"
| "py_get _ k d = Inl AttributeError"

text \<open>
  \<^verbatim>\<open>k in x\<close> for a string \<open>k\<close>: a key of a dict, an element of a list, a substring of a
  string; the other values are not iterable.
\<close>

fun py_in :: "string \<Rightarrow> json \<Rightarrow> py_error + bool" where
  "py_in k (JObj kvs) = Inr (k \<in> set (map fst kvs))"
| "py_in k (JList xs) = Inr (JStr k \<in> set xs)"
| "py_in k (JStr s) = Inr (sublist k s)"
| "py_in k _ = Inl TypeError"

text \<open>\<^verbatim>\<open>x[k]\<close> for a string \<open>k\<close>.\<close>

fun py_item :: "json \<Rightarrow> string \<Rightarrow> py_error + json" where
  "py_item (JObj kvs) k = (case map_of kvs k of None \<Rightarrow> Inl KeyError | Some v \<Rightarrow> Inr v)"
| "py_item _ k = Inl TypeError"

text \<open>
  \<^verbatim>\<open>x[0]\<close>: the first element of a list or string, \<open>IndexError\<close> when it is empty. The keys
  of a parsed JSON object are strings, so \<open>0\<close> is never among them.
\<close>

fun py_first :: "json \<Rightarrow> py_error + json" where
  "py_first (JList []) = Inl IndexError"
| "py_first (JList (x # xs)) = Inr x"
| "py_first (JStr []) = Inl IndexError"
| "py_first (JStr (c # cs)) = Inr (JStr [c])"
| "py_first (JObj kvs) = Inl KeyError"
| "py_first _ = Inl TypeError"

text \<open>
  What a \<^verbatim>\<open>for\<close> loop, \<^verbatim>\<open>list.extend\<close> or a generator sees: the elements of a list, the keys
  of a dict, the characters of a string.
\<close>

fun py_iter :: "json \<Rightarrow> py_error + json list" where
  "py_iter (JList xs) = Inr xs"
| "py_iter (JObj kvs) = Inr (map (\<lambda>kv. JStr (fst kv)) kvs)"
| "py_iter (JStr s) = Inr (map (\<lambda>c. JStr [c]) s)"
| "py_iter _ = Inl TypeError"

text \<open>\<^verbatim>\<open>len(x)\<close>.\<close>

fun py_len :: "json \<Rightarrow> py_error + nat" where
  "py_len (JList xs) = Inr (length xs)"
| "py_len (JObj kvs) = Inr (length kvs)"
| "py_len (JStr s) = Inr (length s)"
| "py_len _ = Inl TypeError"

text \<open>\<^verbatim>\<open>sep.join(xs)\<close> on strings.\<close>

fun join :: "string \<Rightarrow> string list \<Rightarrow> string" where
  "join sep [] = []"
| "join sep [x] = x"
| "join sep (x # y # ys) = x @ sep @ join sep (y # ys)"

text \<open>Sequencing of calls that may raise: the first exception ends the computation.\<close>

definition bindE :: "'e + 'a \<Rightarrow> ('a \<Rightarrow> 'e + 'b) \<Rightarrow> 'e + 'b" where
  "bindE m f = (case m of Inl e \<Rightarrow> Inl e | Inr x \<Rightarrow> f x)"

fun foldE :: "('b \<Rightarrow> 'a \<Rightarrow> 'e + 'b) \<Rightarrow> 'b \<Rightarrow> 'a list \<Rightarrow> 'e + 'b" where
  "foldE f acc [] = Inr acc"
| "foldE f acc (x # xs) = bindE (f acc x) (\<lambda>acc'. foldE f acc' xs)"

fun mapE :: "('a \<Rightarrow> 'e + 'b) \<Rightarrow> 'a list \<Rightarrow> 'e + 'b list" where
  "mapE f [] = Inr []"
| "mapE f (x # xs) = bindE (f x) (\<lambda>y. bindE (mapE f xs) (\<lambda>ys. Inr (y # ys)))"

text \<open>\<^verbatim>\<open>sep.join(x)\<close> on a parsed value: every element must be a string.\<close>

definition py_join :: "string \<Rightarrow> json \<Rightarrow> py_error + string" where
  "py_join sep x =
     bindE (py_iter x) (\<lambda>xs.
     bindE (mapE (\<lambda>v. case v of JStr s \<Rightarrow> Inr s | _ \<Rightarrow> Inl TypeError) xs) (\<lambda>ss.
     Inr (join sep ss)))"

section \<open>The HTTP collaborator\<close>

datatype http_method = GET | POST

record request =
  meth :: http_method
  url :: string
  params :: "(string \<times> json) list"
  form :: "(string \<times> json) list"
  headers :: "(string \<times> string) list"

text \<open>
  What \<^verbatim>\<open>requests.get\<close> / \<^verbatim>\<open>requests.post\<close> followed by \<^verbatim>\<open>response.json()\<close> gives the
  client: a \<^verbatim>\<open>requests.exceptions.RequestException\<close> with its text (which includes a body
  that does not decode, where the library raises \<^verbatim>\<open>requests.exceptions.JSONDecodeError\<close>);
  an exception of another class, named by the class, which the \<^verbatim>\<open>except\<close> clause of the
  client does not catch; or a status code with the parsed body.
\<close>

datatype outcome = RequestException string | LibraryException string | Response int json

text \<open>
  What the client takes from outside the repository: the remote endpoint, a state
  machine over a world \<open>'w\<close> that answers a request and moves on; \<^verbatim>\<open>urlparse(u).query\<close>,
  which raises \<open>ValueError\<close> on a URL it rejects, and \<^verbatim>\<open>parse_qs\<close> of the standard
  library; Python's \<^verbatim>\<open>str\<close> on a parsed JSON value; and the clock reading
  \<^verbatim>\<open>datetime.now(timezone.utc).isoformat()\<close>.
\<close>

record 'w env =
  transport :: "'w \<Rightarrow> request \<Rightarrow> outcome \<times> 'w"
  url_query :: "string \<Rightarrow> py_error + string"
  parse_qs :: "string \<Rightarrow> (string \<times> string list) list"
  py_str :: "json \<Rightarrow> string"
  now_isoformat :: string

text \<open>The network as the client sees it: the world, and the requests issued so far.\<close>

record 'w net =
  world :: 'w
  sent :: "request list"

definition send :: "'w env \<Rightarrow> 'w net \<Rightarrow> request \<Rightarrow> outcome \<times> 'w net" where
  "send env net req =
     (case transport env (world net) req of
        (out, w') \<Rightarrow> (out, \<lparr>world = w', sent = sent net @ [req]\<rparr>))"

section \<open>The client\<close>

record client =
  client_id :: "string option"
  client_secret :: "string option"
  redirect_uri :: string
  short_lived_token :: json
  long_lived_token :: json

text \<open>Truthiness of an \<^verbatim>\<open>Optional[str]\<close> and of an \<^verbatim>\<open>Optional[int]\<close>.\<close>

fun str_truthy :: "string option \<Rightarrow> bool" where
  "str_truthy None = False"
| "str_truthy (Some s) = (s \<noteq> [])"

fun int_truthy :: "int option \<Rightarrow> bool" where
  "int_truthy None = False"
| "int_truthy (Some n) = (n \<noteq> 0)"

definition build_error :: "string \<Rightarrow> string option \<Rightarrow> json" where
  "build_error message code =
     (let error_dict = [(''message'', JStr message)]
      in JObj [(''error'',
           JObj (case code of
                   None \<Rightarrow> error_dict
                 | Some c \<Rightarrow> if c \<noteq> [] then error_dict @ [(''code'', JStr c)] else error_dict))])"

text \<open>Reading the \<open>{error: {message, code}}\<close> shape back.\<close>

definition error_message :: "json \<Rightarrow> string option" where
  "error_message r =
     (case r of
        JObj kvs \<Rightarrow>
          (case map_of kvs ''error'' of
             Some (JObj e) \<Rightarrow> (case map_of e ''message'' of Some (JStr m) \<Rightarrow> Some m | _ \<Rightarrow> None)
           | _ \<Rightarrow> None)
      | _ \<Rightarrow> None)"

definition error_code :: "json \<Rightarrow> string option" where
  "error_code r =
     (case r of
        JObj kvs \<Rightarrow>
          (case map_of kvs ''error'' of
             Some (JObj e) \<Rightarrow> (case map_of e ''code'' of Some (JStr c) \<Rightarrow> Some c | _ \<Rightarrow> None)
           | _ \<Rightarrow> None)
      | _ \<Rightarrow> None)"

subsection \<open>Account insights and the thread list\<close>

definition VALID_METRICS_user :: "string list" where
  "VALID_METRICS_user =
     [''likes'', ''replies'', ''followers_count'', ''follower_demographics'',
      ''reposts'', ''views'', ''quotes'']"

definition VALID_BREAKDOWNS :: "string list" where
  "VALID_BREAKDOWNS = [''country'', ''city'', ''age'', ''gender'']"

definition optional_param :: "string \<Rightarrow> int option \<Rightarrow> (string \<times> json) list" where
  "optional_param k v = (if int_truthy v then [(k, JInt (the v))] else [])"

definition get_threads_user_insights ::
  "'w env \<Rightarrow> 'w net \<Rightarrow> string \<Rightarrow> string list \<Rightarrow> int option \<Rightarrow> int option \<Rightarrow> string option
     \<Rightarrow> (py_error + json) \<times> 'w net" where
  "get_threads_user_insights env net access_token metrics since until breakdown =
     (let invalid_metrics = filter (\<lambda>m. m \<notin> set VALID_METRICS_user) metrics in
      if invalid_metrics \<noteq> [] then
        (Inr (build_error
           (''Invalid metric(s): '' @ join '', '' invalid_metrics @
            ''. Valid metrics: '' @ join '', '' VALID_METRICS_user)
           (Some ''INVALID_INPUT'')), net)
      else
        let params = [(''metric'', JStr (join '','' metrics))]
                     @ optional_param ''since'' since
                     @ optional_param ''until'' until in
        if str_truthy breakdown \<and> the breakdown \<notin> set VALID_BREAKDOWNS then
          (Inr (build_error
             ''Invalid breakdown value. Must be 'country', 'city', 'age', or 'gender'.''
             (Some ''INVALID_INPUT'')), net)
        else
          let params = params @ (if str_truthy breakdown
                                 then [(''breakdown'', JStr (the breakdown))] else []);
              headers = [(''Authorization'', ''Bearer '' @ access_token)] in
          case send env net \<lparr>meth = GET, url = ''https://graph.threads.net/me/threads_insights'',
                             params = params, form = [], headers = headers\<rparr> of
            (Response status body, net') \<Rightarrow>
              if status = 200 then (Inr body, net')
              else (Inr (build_error (py_str env body) (Some ''INSIGHTS_FETCH_FAILED'')), net')
          | (RequestException e, net') \<Rightarrow>
              (Inr (build_error (''Request failed: '' @ e) (Some ''REQUEST_FAILED'')), net')
          | (LibraryException c, net') \<Rightarrow> (Inl (LibraryError c), net'))"

definition VALID_FIELDS :: "string list" where
  "VALID_FIELDS =
     [''id'', ''media_product_type'', ''media_type'', ''media_url'', ''permalink'', ''owner'',
      ''username'', ''text'', ''timestamp'', ''shortcode'', ''thumbnail_url'', ''children'',
      ''is_quote_post'', ''quoted_post'', ''reposted_post'', ''has_replies'', ''alt_text'',
      ''link_attachment_url'']"

text \<open>
  \<open>before\<close> and \<open>after\<close> are cursors: the pagination loop passes on whatever value the
  previous page carried, so they are parsed values here (\<open>JNull\<close> for \<^verbatim>\<open>None\<close>).
\<close>

definition get_list_user_threads ::
  "'w env \<Rightarrow> 'w net \<Rightarrow> string \<Rightarrow> string list \<Rightarrow> int option \<Rightarrow> int option \<Rightarrow> int option
     \<Rightarrow> json \<Rightarrow> json \<Rightarrow> (py_error + json) \<times> 'w net" where
  "get_list_user_threads env net access_token field_list since until limit before after =
     (let invalid_fields = filter (\<lambda>f. f \<notin> set VALID_FIELDS) field_list in
      if invalid_fields \<noteq> [] then
        (Inr (build_error
           (''Invalid field(s): '' @ join '', '' invalid_fields @
            ''. Valid fields: '' @ join '', '' VALID_FIELDS)
           (Some ''INVALID_INPUT'')), net)
      else
        let params = [(''fields'', JStr (join '','' field_list))]
                     @ optional_param ''since'' since
                     @ optional_param ''until'' until
                     @ optional_param ''limit'' limit
                     @ (if truthy before then [(''before'', before)]
                        else if truthy after then [(''after'', after)] else []);
            headers = [(''Authorization'', ''Bearer '' @ access_token)] in
        case send env net \<lparr>meth = GET, url = ''https://graph.threads.net/me/threads'',
                           params = params, form = [], headers = headers\<rparr> of
          (Response status body, net') \<Rightarrow>
            if status = 200 then (Inr body, net')
            else (Inr (build_error (py_str env body) (Some ''THREADS_FETCH_FAILED'')), net')
        | (RequestException e, net') \<Rightarrow>
            (Inr (build_error (''Request failed: '' @ e) (Some ''REQUEST_FAILED'')), net')
        | (LibraryException c, net') \<Rightarrow> (Inl (LibraryError c), net'))"

subsection \<open>Token exchange\<close>

text \<open>
  \<^verbatim>\<open>query_params.get("code", [None])[0]\<close>: the first value of the \<open>code\<close> parameter, \<^verbatim>\<open>None\<close>
  when the parameter is absent.
\<close>

definition auth_code_of :: "(string \<times> string list) list \<Rightarrow> py_error + string option" where
  "auth_code_of query_params =
     (case map_of query_params ''code'' of
        None \<Rightarrow> Inr None
      | Some [] \<Rightarrow> Inl IndexError
      | Some (c # cs) \<Rightarrow> Inr (Some c))"

definition exchange_code_for_token ::
  "'w env \<Rightarrow> client \<Rightarrow> 'w net \<Rightarrow> string \<Rightarrow> (py_error + json) \<times> client \<times> 'w net" where
  "exchange_code_for_token env self net redirect_url =
     (case url_query env redirect_url of
        Inl e \<Rightarrow> (Inl e, self, net)
      | Inr query \<Rightarrow>
     (let query_params = parse_qs env query in
      case auth_code_of query_params of
        Inl e \<Rightarrow> (Inl e, self, net)
      | Inr auth_code \<Rightarrow>
          if \<not> str_truthy auth_code then
            (Inr (build_error ''Authorization code not found in the URL.''
                    (Some ''MISSING_CODE'')), self, net)
          else if \<not> str_truthy (client_id self) \<or> \<not> str_truthy (client_secret self) then
            (Inr (build_error ''Missing 'CLIENT_ID' or 'CLIENT_SECRET'.''
                    (Some ''MISSING_ENV'')), self, net)
          else
            let data = [(''client_id'', JStr (the (client_id self))),
                        (''client_secret'', JStr (the (client_secret self))),
                        (''grant_type'', JStr ''authorization_code''),
                        (''code'', JStr (the auth_code)),
                        (''redirect_uri'', JStr (redirect_uri self))] in
            (case send env net \<lparr>meth = POST, url = ''https://graph.threads.net/oauth/access_token'',
                               params = [], form = data, headers = []\<rparr> of
              (Response status token_info, net') \<Rightarrow>
                if status = 200 then
                  (case py_get token_info ''access_token'' JNull of
                     Inl e \<Rightarrow> (Inl e, self, net')
                   | Inr access_token \<Rightarrow>
                       let self' = self\<lparr>short_lived_token := access_token\<rparr> in
                       (bindE (py_get token_info ''token_type'' JNull) (\<lambda>token_type.
                        bindE (py_get token_info ''expires_in'' JNull) (\<lambda>expires_in.
                        Inr (JObj [(''short_lived_token'', short_lived_token self'),
                                   (''token_type'', token_type),
                                   (''expires_in'', expires_in),
                                   (''error'', JNull)]))),
                        self', net'))
                else
                  (Inr (build_error (py_str env token_info) (Some ''TOKEN_EXCHANGE_FAILED'')),
                   self, net')
            | (RequestException e, net') \<Rightarrow>
                (Inr (build_error (''Request failed: '' @ e) (Some ''REQUEST_FAILED'')),
                 self, net')
            | (LibraryException c, net') \<Rightarrow> (Inl (LibraryError c), self, net'))))"

text \<open>
  \<^verbatim>\<open>short_lived_token or self.short_lived_token\<close>: the argument when it is a non-empty
  string, the stored token otherwise.
\<close>

definition get_long_lived_token ::
  "'w env \<Rightarrow> client \<Rightarrow> 'w net \<Rightarrow> string option \<Rightarrow> (py_error + json) \<times> client \<times> 'w net" where
  "get_long_lived_token env self net short_lived_token_arg =
     (let token_to_use = (if str_truthy short_lived_token_arg
                          then JStr (the short_lived_token_arg) else short_lived_token self) in
      if \<not> truthy token_to_use then
        (Inr (build_error ''No short-lived token provided.'' (Some ''MISSING_TOKEN'')), self, net)
      else if \<not> str_truthy (client_secret self) then
        (Inr (build_error ''Missing 'CLIENT_SECRET' in environment variables.''
                (Some ''MISSING_ENV'')), self, net)
      else
        let params = [(''grant_type'', JStr ''th_exchange_token''),
                      (''client_secret'', JStr (the (client_secret self))),
                      (''access_token'', token_to_use)] in
        case send env net \<lparr>meth = GET, url = ''https://graph.threads.net/access_token'',
                           params = params, form = [], headers = []\<rparr> of
          (Response status info, net') \<Rightarrow>
            if status = 200 then
              (case py_get info ''access_token'' JNull of
                 Inl e \<Rightarrow> (Inl e, self, net')
               | Inr access_token \<Rightarrow>
                   let self' = self\<lparr>long_lived_token := access_token\<rparr> in
                   (Inr (JObj [(''long_lived_token'', long_lived_token self'),
                               (''error'', JNull)]), self', net'))
            else
              (Inr (build_error (py_str env info) (Some ''LONG_TOKEN_EXCHANGE_FAILED'')),
               self, net')
        | (RequestException e, net') \<Rightarrow>
            (Inr (build_error (''Request failed: '' @ e) (Some ''REQUEST_FAILED'')),
             self, net')
        | (LibraryException c, net') \<Rightarrow> (Inl (LibraryError c), self, net'))"

subsection \<open>Media insights\<close>

definition VALID_METRICS_media :: "string list" where
  "VALID_METRICS_media = [''views'', ''likes'', ''replies'', ''reposts'', ''quotes'', ''shares'']"

text \<open>
  An f-string renders a string as itself and any other value through \<^verbatim>\<open>str\<close>. The media
  identifier is whatever the \<open>id\<close> column of the threads table holds.
\<close>

definition format_value :: "'w env \<Rightarrow> json \<Rightarrow> string" where
  "format_value env v = (case v of JStr s \<Rightarrow> s | _ \<Rightarrow> py_str env v)"

definition get_media_insights ::
  "'w env \<Rightarrow> 'w net \<Rightarrow> string \<Rightarrow> json \<Rightarrow> string list \<Rightarrow> (py_error + json) \<times> 'w net" where
  "get_media_insights env net access_token media_id metrics =
     (let invalid_metrics = filter (\<lambda>m. m \<notin> set VALID_METRICS_media) metrics in
      if invalid_metrics \<noteq> [] then
        (Inr (build_error
           (''Invalid metric(s): '' @ join '', '' invalid_metrics @
            ''. Valid metrics: '' @ join '', '' VALID_METRICS_media)
           (Some ''INVALID_INPUT'')), net)
      else
        let url = ''https://graph.threads.net/v1.0/'' @ format_value env media_id @ ''/insights'';
            params = [(''metric'', JStr (join '','' metrics))];
            headers = [(''Authorization'', ''Bearer '' @ access_token)] in
        case send env net \<lparr>meth = GET, url = url, params = params, form = [],
                           headers = headers\<rparr> of
          (Response status body, net') \<Rightarrow>
            if status = 200 then (Inr body, net')
            else (Inr (build_error (py_str env body) (Some ''MEDIA_INSIGHTS_FAILED'')), net')
        | (RequestException e, net') \<Rightarrow>
            (Inr (build_error (''Request failed: '' @ e) (Some ''REQUEST_FAILED'')), net')
        | (LibraryException c, net') \<Rightarrow> (Inl (LibraryError c), net'))"

subsection \<open>Pagination\<close>

text \<open>
  The body of the \<^verbatim>\<open>while True\<close> loop after a response without an \<open>error\<close> key: the
  page's \<open>data\<close> extends the accumulator, and the next cursor is read from
  \<open>paging.cursors.after\<close>.
\<close>

definition page_body :: "json list \<Rightarrow> json \<Rightarrow> py_error + (json list \<times> json)" where
  "page_body all_threads response =
     bindE (py_get response ''data'' (JList [])) (\<lambda>data_list.
     bindE (py_iter data_list) (\<lambda>items.
     bindE (py_get response ''paging'' (JObj [])) (\<lambda>paging.
     bindE (py_get paging ''cursors'' (JObj [])) (\<lambda>cursors.
     bindE (py_get cursors ''after'' JNull) (\<lambda>after_cursor.
     Inr (all_threads @ items, after_cursor))))))"

text \<open>
  The loop has no bound of its own: it ends when a page ends it. \<open>None\<close> is the run that
  never returns; \<open>Some (Inl e, net)\<close> is a run that raises \<open>e\<close>. On a response with
  an \<open>error\<close> the loop prints \<^verbatim>\<open>response['error']\<close> before it stops, so the subscript is
  evaluated.
\<close>

partial_function (option) pagination_loop ::
  "'w env \<Rightarrow> string \<Rightarrow> string list \<Rightarrow> int option \<Rightarrow> int option \<Rightarrow> int
     \<Rightarrow> json list \<Rightarrow> json \<Rightarrow> 'w net \<Rightarrow> ((py_error + json list) \<times> 'w net) option" where
  "pagination_loop env access_token field_list since until limit all_threads after_cursor net =
     (case get_list_user_threads env net access_token field_list since until (Some limit)
             JNull after_cursor of
        (Inl e, net') \<Rightarrow> Some (Inl e, net')
      | (Inr response, net') \<Rightarrow>
          (case py_in ''error'' response of
             Inl e \<Rightarrow> Some (Inl e, net')
           | Inr has_error \<Rightarrow>
               if has_error then
                 (case py_item response ''error'' of
                    Inl e \<Rightarrow> Some (Inl e, net')
                  | Inr printed \<Rightarrow> Some (Inr all_threads, net'))
               else
                 (case page_body all_threads response of
                    Inl e \<Rightarrow> Some (Inl e, net')
                  | Inr (all_threads', after_cursor') \<Rightarrow>
                      if \<not> truthy after_cursor' then Some (Inr all_threads', net')
                      else pagination_loop env access_token field_list since until limit
                             all_threads' after_cursor' net')))"

definition fetch_all_threads_with_pagination ::
  "'w env \<Rightarrow> 'w net \<Rightarrow> string \<Rightarrow> string list \<Rightarrow> int option \<Rightarrow> int option \<Rightarrow> int
     \<Rightarrow> ((py_error + json list) \<times> 'w net) option" where
  "fetch_all_threads_with_pagination env net access_token field_list since until limit =
     pagination_loop env access_token field_list since until limit [] JNull net"

section \<open>Tables\<close>

text \<open>
  A row is the Python dict the code builds for it. A table, as \<^verbatim>\<open>pd.DataFrame(rows)\<close>
  makes it from a list of dicts, has the keys in order of first appearance as columns; a
  cell without a value (pandas shows \<open>NaN\<close>) is a column the row has no binding for. Cells
  keep their Python value: the column dtypes of pandas are not modelled.
\<close>

type_synonym row = "(string \<times> json) list"

record dataframe =
  columns :: "string list"
  rows :: "row list"

definition first_seen :: "'a list \<Rightarrow> 'a list" where
  "first_seen xs = rev (remdups (rev xs))"

definition pd_DataFrame :: "row list \<Rightarrow> dataframe" where
  "pd_DataFrame rs = \<lparr>columns = first_seen (concat (map (map fst) rs)), rows = rs\<rparr>"

text \<open>\<^verbatim>\<open>df.empty\<close>: no rows or no columns.\<close>

definition df_empty :: "dataframe \<Rightarrow> bool" where
  "df_empty df = (columns df = [] \<or> rows df = [])"

text \<open>\<^verbatim>\<open>dict.update\<close> and \<^verbatim>\<open>d[k] = v\<close>: an existing key keeps its place.\<close>

definition dict_update :: "row \<Rightarrow> (string \<times> json) list \<Rightarrow> row" where
  "dict_update d kvs = foldl (\<lambda>r kv. AList.update (fst kv) (snd kv) r) d kvs"

fun set_item :: "row \<Rightarrow> json \<Rightarrow> json \<Rightarrow> py_error + row" where
  "set_item d (JStr k) v = Inr (AList.update k v d)"
| "set_item d (JList xs) v = Inl TypeError"
| "set_item d (JObj kvs) v = Inl TypeError"
| "set_item d _ v = Inl NotModelled"

text \<open>Iterating \<^verbatim>\<open>df[c]\<close>: the cells of column \<open>c\<close>, top to bottom.\<close>

definition df_column :: "dataframe \<Rightarrow> string \<Rightarrow> py_error + json list" where
  "df_column df c =
     (if c \<notin> set (columns df) then Inl KeyError
      else mapE (\<lambda>r. case map_of r c of None \<Rightarrow> Inl NotModelled | Some v \<Rightarrow> Inr v) (rows df))"

text \<open>
  \<^verbatim>\<open>pd.merge(left, right, left_on=l, right_on=r, how="left")\<close>, after the pandas
  documentation: the rows of \<open>left\<close> in their order, each paired with every row of \<open>right\<close>
  whose \<open>r\<close> cell equals its \<open>l\<close> cell, or kept alone when there is none; a column name
  the two tables share gets the suffix \<open>_x\<close> on the left and \<open>_y\<close> on the right.
\<close>

definition merge_name :: "string list \<Rightarrow> string \<Rightarrow> string \<Rightarrow> string" where
  "merge_name overlap sfx c = (if c \<in> set overlap then c @ sfx else c)"

definition rename_row :: "(string \<Rightarrow> string) \<Rightarrow> row \<Rightarrow> row" where
  "rename_row f r = map (\<lambda>kv. (f (fst kv), snd kv)) r"

definition pd_merge_left ::
  "dataframe \<Rightarrow> dataframe \<Rightarrow> string \<Rightarrow> string \<Rightarrow> py_error + dataframe" where
  "pd_merge_left left right left_on right_on =
     (if left_on \<notin> set (columns left) \<or> right_on \<notin> set (columns right) then Inl KeyError
      else
        let overlap = filter (\<lambda>c. c \<in> set (columns right)) (columns left);
            lname = merge_name overlap ''_x'';
            rname = merge_name overlap ''_y'';
            matches = (\<lambda>l. filter (\<lambda>r. map_of r right_on = map_of l left_on) (rows right))
        in Inr \<lparr>columns = map lname (columns left) @ map rname (columns right),
                rows = concat (map (\<lambda>l.
                         if matches l = [] then [rename_row lname l]
                         else map (\<lambda>r. rename_row lname l @ rename_row rname r) (matches l))
                       (rows left))\<rparr>)"

text \<open>\<^verbatim>\<open>df.drop(columns=[c])\<close> and \<^verbatim>\<open>df.insert(loc, c, value)\<close> with a constant value.\<close>

definition df_drop :: "dataframe \<Rightarrow> string \<Rightarrow> py_error + dataframe" where
  "df_drop df c =
     (if c \<notin> set (columns df) then Inl KeyError
      else Inr \<lparr>columns = filter (\<lambda>x. x \<noteq> c) (columns df),
                rows = map (filter (\<lambda>kv. fst kv \<noteq> c)) (rows df)\<rparr>)"

definition df_insert :: "dataframe \<Rightarrow> nat \<Rightarrow> string \<Rightarrow> json \<Rightarrow> py_error + dataframe" where
  "df_insert df loc c v =
     (if c \<in> set (columns df) then Inl ValueError
      else if loc > length (columns df) then Inl IndexError
      else Inr \<lparr>columns = take loc (columns df) @ [c] @ drop loc (columns df),
                rows = map (\<lambda>r. (c, v) # r) (rows df)\<rparr>)"

section \<open>Flattening\<close>

subsection \<open>The since/until window of an account-insights response\<close>

definition is_digit :: "char \<Rightarrow> bool" where
  "is_digit c = (48 \<le> (of_char c :: nat) \<and> (of_char c :: nat) \<le> 57)"

text \<open>
  \<^verbatim>\<open>re.search(key + r"(\d+)", s)\<close> and its group 1: the digits after the leftmost
  occurrence of \<open>key\<close> that a digit follows. Digits are the ASCII digits.
\<close>

fun re_search_digits :: "string \<Rightarrow> string \<Rightarrow> string option" where
  "re_search_digits key [] = None"
| "re_search_digits key (c # cs) =
     (let ds = takeWhile is_digit (drop (length key) (c # cs)) in
      if prefix key (c # cs) \<and> ds \<noteq> [] then Some ds else re_search_digits key cs)"

definition int_of_digits :: "string \<Rightarrow> int" where
  "int_of_digits ds = foldl (\<lambda>a c. 10 * a + (int (of_char c) - 48)) 0 ds"

fun pad :: "nat \<Rightarrow> int \<Rightarrow> string" where
  "pad 0 x = []"
| "pad (Suc n) x = pad n (x div 10) @ [char_of (48 + nat (x mod 10))]"

text \<open>
  \<^verbatim>\<open>datetime.fromtimestamp(ts, tz=timezone.utc).strftime('%Y-%m-%d %H:%M:%S')\<close> for
  \<open>ts \<ge> 0\<close>: the proleptic Gregorian date of the day count, by the usual era
  arithmetic. Past the last second of year 9999 the call raises (\<open>ValueError\<close> or
  \<open>OverflowError\<close>, one constructor here).
\<close>

definition utc_strftime :: "int \<Rightarrow> py_error + string" where
  "utc_strftime ts =
     (if ts > 253402300799 then Inl ValueError
      else
        let days = ts div 86400; secs = ts mod 86400;
            z = days + 719468; era = z div 146097; doe = z mod 146097;
            yoe = (doe - doe div 1460 + doe div 36524 - doe div 146096) div 365;
            doy = doe - (365 * yoe + yoe div 4 - yoe div 100);
            mp = (5 * doy + 2) div 153;
            d = doy - (153 * mp + 2) div 5 + 1;
            m = (if mp < 10 then mp + 3 else mp - 9);
            y = yoe + era * 400 + (if m \<le> 2 then 1 else 0)
        in Inr (pad 4 y @ ''-'' @ pad 2 m @ ''-'' @ pad 2 d @ '' '' @
                pad 2 (secs div 3600) @ '':'' @ pad 2 (secs mod 3600 div 60) @ '':'' @
                pad 2 (secs mod 60)))"

definition window_value :: "string \<Rightarrow> string \<Rightarrow> py_error + json" where
  "window_value key prev_url =
     (case re_search_digits key prev_url of
        None \<Rightarrow> Inr JNull
      | Some ds \<Rightarrow> bindE (utc_strftime (int_of_digits ds)) (\<lambda>s. Inr (JStr s)))"

definition paging_window :: "json \<Rightarrow> py_error + (json \<times> json)" where
  "paging_window response =
     bindE (py_in ''paging'' response) (\<lambda>has_paging.
       if \<not> has_paging then Inr (JNull, JNull)
       else
         bindE (py_item response ''paging'') (\<lambda>paging.
         bindE (py_in ''previous'' paging) (\<lambda>has_previous.
           if \<not> has_previous then Inr (JNull, JNull)
           else
             bindE (py_item paging ''previous'') (\<lambda>prev_url.
               case prev_url of
                 JStr u \<Rightarrow>
                   bindE (window_value ''since='' u) (\<lambda>since_val.
                   bindE (window_value ''until='' u) (\<lambda>until_val.
                   Inr (since_val, until_val)))
               | _ \<Rightarrow> Inl TypeError))))"

subsection \<open>Account insights\<close>

definition base_row_of :: "json \<Rightarrow> json \<Rightarrow> json \<Rightarrow> py_error + row" where
  "base_row_of since_val until_val item =
     bindE (py_get item ''name'' JNull) (\<lambda>name.
     bindE (py_get item ''title'' JNull) (\<lambda>title.
     bindE (py_get item ''description'' JNull) (\<lambda>description.
     bindE (py_get item ''total_value'' (JObj [])) (\<lambda>total.
     bindE (py_get total ''value'' JNull) (\<lambda>total_value.
     bindE (py_get item ''id'' JNull) (\<lambda>ident.
     Inr [(''name'', name), (''title'', title), (''description'', description),
          (''since'', since_val), (''until'', until_val),
          (''total_value'', total_value), (''id'', ident)]))))))"

text \<open>The row of one result of one breakdown of a \<open>follower_demographics\<close> item.\<close>

definition result_row :: "row \<Rightarrow> string \<Rightarrow> json \<Rightarrow> py_error + row" where
  "result_row base_row dimension_key result =
     bindE (py_get result ''dimension_values'' (JList [JNull])) (\<lambda>dimension_values.
     bindE (py_first dimension_values) (\<lambda>dimension_value.
     bindE (py_get result ''value'' JNull) (\<lambda>v.
     Inr (dict_update base_row
            [(''dimension_key'', JStr dimension_key),
             (''dimension_value'', dimension_value),
             (''value'', v)]))))"

definition breakdown_rows :: "row \<Rightarrow> json \<Rightarrow> py_error + row list" where
  "breakdown_rows base_row breakdown =
     bindE (py_get breakdown ''dimension_keys'' (JList [])) (\<lambda>dimension_keys.
     bindE (py_join '','' dimension_keys) (\<lambda>dimension_key.
     bindE (py_get breakdown ''results'' (JList [])) (\<lambda>results.
     bindE (py_iter results) (\<lambda>rs.
     mapE (result_row base_row dimension_key) rs))))"

text \<open>\<^verbatim>\<open>sum(v.get("value", 0) for v in values)\<close>: a \<^verbatim>\<open>bool\<close> adds as 0 or 1.\<close>

definition add_value :: "int \<Rightarrow> json \<Rightarrow> py_error + int" where
  "add_value acc v =
     bindE (py_get v ''value'' (JInt 0)) (\<lambda>x.
       case x of
         JInt n \<Rightarrow> Inr (acc + n)
       | JBool b \<Rightarrow> Inr (acc + (if b then 1 else 0))
       | _ \<Rightarrow> Inl TypeError)"

definition value_row :: "row \<Rightarrow> json \<Rightarrow> py_error + row" where
  "value_row base_row value_item =
     bindE (py_get value_item ''value'' JNull) (\<lambda>v.
     bindE (py_get value_item ''end_time'' JNull) (\<lambda>end_time.
     Inr (dict_update base_row [(''value'', v), (''end_time'', end_time)])))"

text \<open>The body of the loop over \<open>data\<close>: the rows one insight item adds.\<close>

definition item_rows :: "json \<Rightarrow> json \<Rightarrow> json \<Rightarrow> py_error + row list" where
  "item_rows since_val until_val item =
     bindE (base_row_of since_val until_val item) (\<lambda>base_row.
     bindE (py_get item ''name'' JNull) (\<lambda>name.
     bindE (py_in ''total_value'' item) (\<lambda>has_total_value.
     bindE (py_in ''values'' item) (\<lambda>has_values.
       if name = JStr ''follower_demographics'' \<and> has_total_value then
         bindE (py_item item ''total_value'') (\<lambda>total.
         bindE (py_get total ''breakdowns'' (JList [])) (\<lambda>breakdowns.
         bindE (py_iter breakdowns) (\<lambda>bs.
         bindE (mapE (breakdown_rows base_row) bs) (\<lambda>rss.
         Inr (concat rss)))))
       else if name = JStr ''views'' \<and> has_values then
         bindE (py_item item ''values'') (\<lambda>values.
         bindE (py_iter values) (\<lambda>vs.
         bindE (foldE add_value 0 vs) (\<lambda>total_views.
         Inr [dict_update base_row
                [(''total_value'', JInt total_views),
                 (''value'', JNull),
                 (''end_time'', JNull)]])))
       else if has_values then
         bindE (py_item item ''values'') (\<lambda>values.
         bindE (py_iter values) (\<lambda>vs.
         mapE (value_row base_row) vs))
       else Inr [base_row]))))"

definition convert_account_insights_to_dataframe :: "json \<Rightarrow> py_error + dataframe" where
  "convert_account_insights_to_dataframe response =
     bindE (py_in ''data'' response) (\<lambda>has_data.
       if \<not> has_data then Inr (pd_DataFrame [])
       else
         bindE (py_item response ''data'') (\<lambda>data.
         bindE (paging_window response) (\<lambda>window.
         bindE (py_iter data) (\<lambda>items.
         bindE (mapE (item_rows (fst window) (snd window)) items) (\<lambda>rss.
         Inr (pd_DataFrame (concat rss)))))))"

subsection \<open>Threads\<close>

definition thread_row :: "json \<Rightarrow> py_error + row" where
  "thread_row thread =
     bindE (py_get thread ''id'' JNull) (\<lambda>ident.
     bindE (py_get thread ''media_product_type'' JNull) (\<lambda>media_product_type.
     bindE (py_get thread ''media_type'' JNull) (\<lambda>media_type.
     bindE (py_get thread ''media_url'' JNull) (\<lambda>media_url.
     bindE (py_get thread ''permalink'' JNull) (\<lambda>permalink.
     bindE (py_get thread ''owner'' (JObj [])) (\<lambda>owner.
     bindE (py_get owner ''id'' JNull) (\<lambda>owner_id.
     bindE (py_get thread ''username'' JNull) (\<lambda>username.
     bindE (py_get thread ''text'' JNull) (\<lambda>text.
     bindE (py_get thread ''timestamp'' JNull) (\<lambda>timestamp.
     bindE (py_get thread ''shortcode'' JNull) (\<lambda>shortcode.
     bindE (py_get thread ''is_quote_post'' JNull) (\<lambda>is_quote_post.
     bindE (py_get thread ''has_replies'' JNull) (\<lambda>has_replies.
     bindE (py_get thread ''children'' (JObj [])) (\<lambda>children_obj.
     bindE (py_get children_obj ''data'' (JList [])) (\<lambda>children.
     bindE (if truthy children
            then bindE (py_iter children) (\<lambda>cs.
                 bindE (mapE (\<lambda>child. py_get child ''id'' JNull) cs) (\<lambda>ids.
                 Inr (JList ids)))
            else Inr JNull) (\<lambda>children_ids.
     Inr [(''id'', ident), (''media_product_type'', media_product_type),
          (''media_type'', media_type), (''media_url'', media_url),
          (''permalink'', permalink), (''owner_id'', owner_id),
          (''username'', username), (''text'', text), (''timestamp'', timestamp),
          (''shortcode'', shortcode), (''is_quote_post'', is_quote_post),
          (''has_replies'', has_replies), (''children_ids'', children_ids)]
     ))))))))))))))))"

definition threads_json_to_dataframe :: "json list \<Rightarrow> py_error + dataframe" where
  "threads_json_to_dataframe threads_json =
     bindE (mapE thread_row threads_json) (\<lambda>rs. Inr (pd_DataFrame rs))"

subsection \<open>Media insights of a table of threads\<close>

text \<open>
  The loop over the \<open>id\<close> column. On a response with an \<open>error\<close> it prints
  \<^verbatim>\<open>resp['error']\<close> before it goes on to the next identifier, so the subscript is
  evaluated.
\<close>

fun media_insights_loop ::
  "'w env \<Rightarrow> string \<Rightarrow> string list \<Rightarrow> json list \<Rightarrow> json list \<Rightarrow> 'w net
     \<Rightarrow> (py_error + json list) \<times> 'w net" where
  "media_insights_loop env access_token metrics [] insights_list net = (Inr insights_list, net)"
| "media_insights_loop env access_token metrics (media_id # ids) insights_list net =
     (case get_media_insights env net access_token media_id metrics of
        (Inl e, net') \<Rightarrow> (Inl e, net')
      | (Inr resp, net') \<Rightarrow>
          (case py_in ''error'' resp of
             Inl e \<Rightarrow> (Inl e, net')
           | Inr has_error \<Rightarrow>
               if has_error then
                 (case py_item resp ''error'' of
                    Inl e \<Rightarrow> (Inl e, net')
                  | Inr printed \<Rightarrow>
                      media_insights_loop env access_token metrics ids insights_list net')
               else media_insights_loop env access_token metrics ids
                      (insights_list @ [JObj [(''media_id'', media_id), (''insights'', resp)]])
                      net'))"

definition fetch_insights_for_media_in_dataframe ::
  "'w env \<Rightarrow> 'w net \<Rightarrow> string \<Rightarrow> dataframe \<Rightarrow> string list
     \<Rightarrow> (py_error + json list) \<times> 'w net" where
  "fetch_insights_for_media_in_dataframe env net access_token dataframe metrics =
     (case df_column dataframe ''id'' of
        Inl e \<Rightarrow> (Inl e, net)
      | Inr ids \<Rightarrow> media_insights_loop env access_token metrics ids [] net)"

text \<open>The body of the loop over an item's insights: what one insight does to the row.\<close>

definition insight_into_row :: "row \<Rightarrow> json \<Rightarrow> py_error + row" where
  "insight_into_row row insight =
     bindE (py_item insight ''name'') (\<lambda>metric_name.
     bindE (py_in ''values'' insight) (\<lambda>has_values.
       if \<not> has_values then Inr row
       else
         bindE (py_item insight ''values'') (\<lambda>values.
         bindE (py_len values) (\<lambda>n.
           if \<not> n > 0 then Inr row
           else
             bindE (py_first values) (\<lambda>first_entry.
             bindE (py_get first_entry ''value'' JNull) (\<lambda>metric_value.
             set_item row metric_name metric_value))))))"

text \<open>The rows one item of the insights list adds: one, or none without a \<open>data\<close> key.\<close>

definition insight_item_rows :: "json \<Rightarrow> py_error + row list" where
  "insight_item_rows item =
     bindE (py_item item ''media_id'') (\<lambda>media_id.
     bindE (py_item item ''insights'') (\<lambda>ins_data.
     bindE (py_in ''data'' ins_data) (\<lambda>has_data.
       if \<not> has_data then Inr []
       else
         bindE (py_item ins_data ''data'') (\<lambda>data.
         bindE (py_iter data) (\<lambda>insights.
         bindE (foldE insight_into_row [(''media_id'', media_id)] insights) (\<lambda>row.
         Inr [row]))))))"

definition insights_to_dataframe :: "json list \<Rightarrow> py_error + dataframe" where
  "insights_to_dataframe insights_list =
     bindE (mapE insight_item_rows insights_list) (\<lambda>rss. Inr (pd_DataFrame (concat rss)))"

subsection \<open>The pipeline\<close>

definition merge_threads_with_insights ::
  "'w env \<Rightarrow> string \<Rightarrow> dataframe \<Rightarrow> dataframe \<Rightarrow> py_error + dataframe" where
  "merge_threads_with_insights env client_name threads_df insights_df =
     bindE (pd_merge_left threads_df insights_df ''id'' ''media_id'') (\<lambda>combined_df.
     bindE (df_drop combined_df ''media_id'') (\<lambda>combined_df.
     bindE (df_insert combined_df 0 ''client'' (JStr client_name)) (\<lambda>combined_df.
     df_insert combined_df 1 ''captured_at'' (JStr (now_isoformat env)))))"

definition fetch_and_merge_threads_with_insights ::
  "'w env \<Rightarrow> 'w net \<Rightarrow> string \<Rightarrow> string list \<Rightarrow> string list \<Rightarrow> string
     \<Rightarrow> int option \<Rightarrow> int option \<Rightarrow> ((py_error + dataframe) \<times> 'w net) option" where
  "fetch_and_merge_threads_with_insights env net access_token field_list metrics client_name
       since until =
     (case fetch_all_threads_with_pagination env net access_token field_list since until 50 of
        None \<Rightarrow> None
      | Some (Inl e, net1) \<Rightarrow> Some (Inl e, net1)
      | Some (Inr threads_json, net1) \<Rightarrow>
          Some
           (if threads_json = [] then (Inr (pd_DataFrame []), net1)
            else
              case threads_json_to_dataframe threads_json of
                Inl e \<Rightarrow> (Inl e, net1)
              | Inr threads_df \<Rightarrow>
                  if df_empty threads_df then (Inr threads_df, net1)
                  else
                    (case fetch_insights_for_media_in_dataframe env net1 access_token
                            threads_df metrics of
                       (Inl e, net2) \<Rightarrow> (Inl e, net2)
                     | (Inr insights_list, net2) \<Rightarrow>
                         if insights_list = [] then (Inr threads_df, net2)
                         else
                           (case insights_to_dataframe insights_list of
                              Inl e \<Rightarrow> (Inl e, net2)
                            | Inr insights_df \<Rightarrow>
                                if df_empty insights_df then (Inr threads_df, net2)
                                else (merge_threads_with_insights env client_name
                                        threads_df insights_df, net2)))))"

section \<open>Observing a run\<close>

text \<open>The requests a call issued: what the log holds after it beyond what it held before.\<close>

definition issued :: "'w net \<Rightarrow> 'w net \<Rightarrow> request list" where
  "issued net net' = drop (length (sent net)) (sent net')"

text \<open>
  The call issued exactly one request and the endpoint gave \<open>out\<close> for it.
\<close>

definition answered :: "'w env \<Rightarrow> 'w net \<Rightarrow> 'w net \<Rightarrow> outcome \<Rightarrow> bool" where
  "answered env net net' out =
     (case issued net net' of
        [req] \<Rightarrow> fst (transport env (world net) req) = out
      | _ \<Rightarrow> False)"

text \<open>The error value a transport-level exception with text \<open>e\<close> is turned into.\<close>

definition request_failed :: "string \<Rightarrow> json" where
  "request_failed e = build_error (''Request failed: '' @ e) (Some ''REQUEST_FAILED'')"

text \<open>
  An endpoint that answers from a prepared list of outcomes, one per request, and refuses
  the connection once the list is used up; with plain stand-ins for the library
  functions it makes an environment on which the client can be run. The stand-in for
  \<^verbatim>\<open>urlparse(u).query\<close> follows \<^verbatim>\<open>urlsplit\<close>: the scheme is split off at the first colon
  when what precedes it is a scheme name, the host is what follows a leading \<open>//\<close> up to
  the next \<open>/\<close>, \<open>?\<close> or \<open>#\<close>, a host with one square bracket and not the other is
  rejected with \<open>ValueError\<close>, and the query is the text between the first \<open>?\<close> and the
  first \<open>#\<close>. The stand-in for \<^verbatim>\<open>parse_qs\<close> does no percent-decoding and no grouping of
  repeated names.
\<close>

definition scripted :: "outcome list \<Rightarrow> request \<Rightarrow> outcome \<times> outcome list" where
  "scripted w req =
     (case w of
        [] \<Rightarrow> (RequestException ''connection refused'', [])
      | out # rest \<Rightarrow> (out, rest))"

fun split_on :: "char \<Rightarrow> string \<Rightarrow> string list" where
  "split_on sep [] = [[]]"
| "split_on sep (c # cs) =
     (if c = sep then [] # split_on sep cs
      else case split_on sep cs of
             [] \<Rightarrow> [[c]]
           | p # ps \<Rightarrow> (c # p) # ps)"

definition scheme_chars :: string where
  "scheme_chars =
     ''abcdefghijklmnopqrstuvwxyz'' @ ''ABCDEFGHIJKLMNOPQRSTUVWXYZ'' @ ''0123456789'' @ ''+-.''"

definition after_scheme :: "string \<Rightarrow> string" where
  "after_scheme u =
     (let s = takeWhile (\<lambda>c. c \<noteq> CHR '':'') u in
      if s \<noteq> [] \<and> length s < length u \<and> hd s \<in> set (take 52 scheme_chars)
         \<and> list_all (\<lambda>c. c \<in> set scheme_chars) s
      then drop (length s + 1) u else u)"

definition plain_url_query :: "string \<Rightarrow> py_error + string" where
  "plain_url_query u =
     (let rest = after_scheme u;
          netloc = (if take 2 rest = ''//''
                    then takeWhile (\<lambda>c. c \<notin> set ''/?#'') (drop 2 rest) else [])
      in if (CHR ''['' \<in> set netloc) \<noteq> (CHR '']'' \<in> set netloc) then Inl ValueError
         else Inr (drop 1 (dropWhile (\<lambda>c. c \<noteq> CHR ''?'')
                             (takeWhile (\<lambda>c. c \<noteq> CHR ''#'') rest))))"

definition plain_parse_qs :: "string \<Rightarrow> (string \<times> string list) list" where
  "plain_parse_qs q =
     map (\<lambda>p. (takeWhile (\<lambda>c. c \<noteq> CHR ''='') p, [drop 1 (dropWhile (\<lambda>c. c \<noteq> CHR ''='') p)]))
       (filter (\<lambda>p. drop 1 (dropWhile (\<lambda>c. c \<noteq> CHR ''='') p) \<noteq> []) (split_on CHR ''&'' q))"

definition plain_str :: "json \<Rightarrow> string" where
  "plain_str v =
     (case v of
        JStr s \<Rightarrow> s
      | JNull \<Rightarrow> ''None''
      | JBool b \<Rightarrow> (if b then ''True'' else ''False'')
      | _ \<Rightarrow> ''...'')"

definition scripted_env :: "outcome list env" where
  "scripted_env =
     \<lparr>transport = scripted, url_query = plain_url_query, parse_qs = plain_parse_qs,
      py_str = plain_str, now_isoformat = ''2026-01-01T00:00:00+00:00''\<rparr>"

definition start :: "outcome list \<Rightarrow> outcome list net" where
  "start outs = \<lparr>world = outs, sent = []\<rparr>"

definition demo_client :: client where
  "demo_client =
     \<lparr>client_id = Some ''app'', client_secret = Some ''secret'',
      redirect_uri = ''https://oauth.pstmn.io/v1/browser-callback'',
      short_lived_token = JNull, long_lived_token = JNull\<rparr>"

text \<open>
  Inputs for runs: an endpoint that is down, one that answers 200 with a JSON array, a
  redirect URL that carries a code, one that carries none, and one whose host opens a
  square bracket and never closes it.
\<close>

definition down :: "outcome list net" where
  "down = start [RequestException ''timed out'']"

definition array_reply :: "outcome list net" where
  "array_reply = start [Response 200 (JList [])]"

definition callback_url :: string where
  "callback_url = ''https://app.example/cb?code=abc''"

definition denied_url :: string where
  "denied_url = ''https://app.example/cb?state=xyz&error=denied''"

definition malformed_url :: string where
  "malformed_url = ''https://[app.example/cb?state=xyz&error=denied''"

section \<open>What the flattening claims speak of\<close>

text \<open>
  The value an entry of a \<open>values\<close> array contributes to the total of a \<open>views\<close> item:
  its \<open>value\<close>, and 0 when the entry has none.
\<close>

definition entry_value :: "json \<Rightarrow> int" where
  "entry_value v =
     (case v of
        JObj e \<Rightarrow> (case map_of e ''value'' of Some (JInt n) \<Rightarrow> n | _ \<Rightarrow> 0)
      | _ \<Rightarrow> 0)"

text \<open>
  A \<open>views\<close> item of the shape the platform documents: a \<open>values\<close> array of objects
  whose \<open>value\<close>, when there is one, is an integer, and a \<open>total_value\<close> that is an
  object when there is one.
\<close>

definition views_entry :: "json \<Rightarrow> bool" where
  "views_entry v =
     (case v of
        JObj e \<Rightarrow> (case map_of e ''value'' of None \<Rightarrow> True | Some (JInt n) \<Rightarrow> True | Some _ \<Rightarrow> False)
      | _ \<Rightarrow> False)"

definition views_item :: "(string \<times> json) list \<Rightarrow> json list \<Rightarrow> bool" where
  "views_item kvs vs =
     (map_of kvs ''name'' = Some (JStr ''views'')
      \<and> map_of kvs ''values'' = Some (JList vs)
      \<and> list_all views_entry vs
      \<and> (case map_of kvs ''total_value'' of
            None \<Rightarrow> True | Some (JObj t) \<Rightarrow> True | Some _ \<Rightarrow> False))"

definition views_response :: json where
  "views_response =
     JObj [(''data'', JList
        [JObj [(''name'', JStr ''views''),
               (''values'', JList [JObj [(''value'', JInt 3)], JObj [(''value'', JInt 5)]])]])]"

text \<open>
  An insight of a media-insights payload, of the documented shape: an object with a string
  \<open>name\<close> whose \<open>values\<close>, when there are any, form an array that is empty or starts
  with an object. Nothing is asked of the entries after the first.
\<close>

fun is_str :: "json option \<Rightarrow> bool" where
  "is_str (Some (JStr n)) = True"
| "is_str _ = False"

fun values_ok :: "json option \<Rightarrow> bool" where
  "values_ok None = True"
| "values_ok (Some (JList [])) = True"
| "values_ok (Some (JList (JObj e # rest))) = True"
| "values_ok _ = False"

fun wf_insight :: "json \<Rightarrow> bool" where
  "wf_insight (JObj kvs) = (is_str (map_of kvs ''name'') \<and> values_ok (map_of kvs ''values''))"
| "wf_insight _ = False"

text \<open>
  The assignment \<^verbatim>\<open>row[name] = values[0].get("value")\<close> that an insight with a non-empty
  \<open>values\<close> array stands for; an insight without one stands for none.
\<close>

fun assignment :: "json option \<Rightarrow> json option \<Rightarrow> (string \<times> json) list" where
  "assignment (Some (JStr n)) (Some (JList (JObj e # rest))) =
     [(n, case map_of e ''value'' of None \<Rightarrow> JNull | Some v \<Rightarrow> v)]"
| "assignment _ _ = []"

fun metric_assignment :: "json \<Rightarrow> (string \<times> json) list" where
  "metric_assignment (JObj kvs) = assignment (map_of kvs ''name'') (map_of kvs ''values'')"
| "metric_assignment _ = []"

text \<open>A media-insights item with a two-point series, an empty series and no series.\<close>

definition demo_insights :: "json list" where
  "demo_insights =
     [JObj [(''name'', JStr ''likes''),
            (''values'', JList [JObj [(''value'', JInt 4)], JObj [(''value'', JInt 9)]])],
      JObj [(''name'', JStr ''views''), (''values'', JList [])],
      JObj [(''name'', JStr ''replies'')]]"

definition demo_payload :: "(string \<times> json) list" where
  "demo_payload = [(''data'', JList demo_insights)]"

definition demo_item :: "(string \<times> json) list" where
  "demo_item = [(''media_id'', JStr ''17''), (''insights'', JObj demo_payload)]"

section \<open>What the pagination claim speaks of\<close>

text \<open>
  A page with data, as the list endpoint documents it: an object without an \<open>error\<close>
  key, whose \<open>data\<close>, when present, is an array and whose \<open>paging\<close> and
  \<open>paging.cursors\<close>, when present, are objects.
\<close>

fun data_ok :: "json option \<Rightarrow> bool" where
  "data_ok None = True"
| "data_ok (Some (JList xs)) = True"
| "data_ok _ = False"

fun cursors_ok :: "json option \<Rightarrow> bool" where
  "cursors_ok None = True"
| "cursors_ok (Some (JObj cs)) = True"
| "cursors_ok _ = False"

fun paging_ok :: "json option \<Rightarrow> bool" where
  "paging_ok None = True"
| "paging_ok (Some (JObj pg)) = cursors_ok (map_of pg ''cursors'')"
| "paging_ok _ = False"

fun data_page :: "json \<Rightarrow> bool" where
  "data_page (JObj kvs) =
     (map_of kvs ''error'' = None \<and> data_ok (map_of kvs ''data'')
      \<and> paging_ok (map_of kvs ''paging''))"
| "data_page _ = False"

text \<open>A page that reports an error: an object with an \<open>error\<close> key.\<close>

fun error_page :: "json \<Rightarrow> bool" where
  "error_page (JObj kvs) = (map_of kvs ''error'' \<noteq> None)"
| "error_page _ = False"

text \<open>The records of a page, and the cursor \<open>paging.cursors.after\<close> it carries.\<close>

fun data_items :: "json option \<Rightarrow> json list" where
  "data_items (Some (JList xs)) = xs"
| "data_items _ = []"

fun page_data :: "json \<Rightarrow> json list" where
  "page_data (JObj kvs) = data_items (map_of kvs ''data'')"
| "page_data _ = []"

fun member :: "json option \<Rightarrow> string \<Rightarrow> json option" where
  "member (Some (JObj kvs)) k = map_of kvs k"
| "member _ k = None"

fun next_cursor :: "json \<Rightarrow> json" where
  "next_cursor (JObj kvs) =
     (case member (member (map_of kvs ''paging'') ''cursors'') ''after'' of
        None \<Rightarrow> JNull
      | Some c \<Rightarrow> c)"
| "next_cursor _ = JNull"






section \<open>What the pipeline claims speak of\<close>

text \<open>The columns of a table of threads, in the order \<open>thread_row\<close> fills them.\<close>

definition thread_columns :: "string list" where
  "thread_columns =
     [''id'', ''media_product_type'', ''media_type'', ''media_url'', ''permalink'', ''owner_id'',
      ''username'', ''text'', ''timestamp'', ''shortcode'', ''is_quote_post'', ''has_replies'',
      ''children_ids'']"

text \<open>
  Inputs for runs of the pipeline: a page without records, a page with one thread, the
  row of that thread, the two requests such a run issues, and an insights item whose
  payload has no \<open>data\<close>.
\<close>

definition empty_page :: json where
  "empty_page = JObj [(''data'', JList [])]"

definition one_thread :: json where
  "one_thread = JObj [(''id'', JStr ''1''), (''text'', JStr ''hello'')]"

definition one_thread_page :: json where
  "one_thread_page = JObj [(''data'', JList [one_thread])]"

definition one_thread_row :: row where
  "one_thread_row =
     [(''id'', JStr ''1''), (''media_product_type'', JNull), (''media_type'', JNull),
      (''media_url'', JNull), (''permalink'', JNull), (''owner_id'', JNull),
      (''username'', JNull), (''text'', JStr ''hello''), (''timestamp'', JNull),
      (''shortcode'', JNull), (''is_quote_post'', JNull), (''has_replies'', JNull),
      (''children_ids'', JNull)]"

definition threads_request :: request where
  "threads_request =
     \<lparr>meth = GET, url = ''https://graph.threads.net/me/threads'',
      params = [(''fields'', JStr ''id,text''), (''limit'', JInt 50)], form = [],
      headers = [(''Authorization'', ''Bearer tok'')]\<rparr>"

definition insights_request :: request where
  "insights_request =
     \<lparr>meth = GET, url = ''https://graph.threads.net/v1.0/1/insights'',
      params = [(''metric'', JStr ''views'')], form = [],
      headers = [(''Authorization'', ''Bearer tok'')]\<rparr>"

definition bare_item :: json where
  "bare_item = JObj [(''media_id'', JStr ''1''), (''insights'', JObj [])]"

text \<open>
  The name a column of the left table has in the merged table: its own, or its own with
  \<open>_x\<close> when the right table has a column of the same name.
\<close>

definition merged_column :: "dataframe \<Rightarrow> dataframe \<Rightarrow> string \<Rightarrow> string" where
  "merged_column left right c =
     merge_name (filter (\<lambda>c. c \<in> set (columns right)) (columns left)) ''_x'' c"

text \<open>The name a column of the right table has in the merged table: with \<open>_y\<close> when shared.\<close>

definition merged_right_column :: "dataframe \<Rightarrow> dataframe \<Rightarrow> string \<Rightarrow> string" where
  "merged_right_column left right c =
     merge_name (filter (\<lambda>c. c \<in> set (columns right)) (columns left)) ''_y'' c"

text \<open>
  A left-outer join on the thread identifier, row by row. The insight rows that match a
  thread row are those whose \<open>media_id\<close> cell equals its \<open>id\<close> cell. What the combined
  table holds for a thread row: the two constant cells and the thread's own cells, once
  with the cells of each matching insight row after them (all but the join key
  \<open>media_id\<close>), in the order of the insights table, or once and alone when no insight
  row matches.
\<close>

definition matching :: "dataframe \<Rightarrow> row \<Rightarrow> row list" where
  "matching insights_df t =
     filter (\<lambda>i. map_of i ''media_id'' = map_of t ''id'') (rows insights_df)"

definition insight_cells :: "dataframe \<Rightarrow> dataframe \<Rightarrow> row \<Rightarrow> row" where
  "insight_cells threads_df insights_df i =
     filter (\<lambda>kv. fst kv \<noteq> ''media_id'')
       (rename_row (merged_right_column threads_df insights_df) i)"

definition tagged :: "'w env \<Rightarrow> string \<Rightarrow> dataframe \<Rightarrow> dataframe \<Rightarrow> row \<Rightarrow> row" where
  "tagged env client_name threads_df insights_df t =
     [(''captured_at'', JStr (now_isoformat env)), (''client'', JStr client_name)]
     @ rename_row (merged_column threads_df insights_df) t"

definition joined_rows ::
  "'w env \<Rightarrow> string \<Rightarrow> dataframe \<Rightarrow> dataframe \<Rightarrow> row \<Rightarrow> row list" where
  "joined_rows env client_name threads_df insights_df t =
     (if matching insights_df t = [] then [tagged env client_name threads_df insights_df t]
      else map (\<lambda>i. tagged env client_name threads_df insights_df t
                     @ insight_cells threads_df insights_df i)
             (matching insights_df t))"

text \<open>
  Inputs for a run that reaches the merge: a second thread, the page with both, the table
  of the two, the insights of the first (the call for the second fails), their table.
\<close>

definition other_thread :: json where
  "other_thread = JObj [(''id'', JStr ''2''), (''text'', JStr ''bye'')]"

definition two_thread_page :: json where
  "two_thread_page = JObj [(''data'', JList [one_thread, other_thread])]"

definition other_thread_row :: row where
  "other_thread_row =
     [(''id'', JStr ''2''), (''media_product_type'', JNull), (''media_type'', JNull),
      (''media_url'', JNull), (''permalink'', JNull), (''owner_id'', JNull),
      (''username'', JNull), (''text'', JStr ''bye''), (''timestamp'', JNull),
      (''shortcode'', JNull), (''is_quote_post'', JNull), (''has_replies'', JNull),
      (''children_ids'', JNull)]"

definition views_insights :: json where
  "views_insights =
     JObj [(''data'', JList [JObj [(''name'', JStr ''views''),
                                   (''values'', JList [JObj [(''value'', JInt 7)]])]])]"

definition other_insights_request :: request where
  "other_insights_request =
     \<lparr>meth = GET, url = ''https://graph.threads.net/v1.0/2/insights'',
      params = [(''metric'', JStr ''views'')], form = [],
      headers = [(''Authorization'', ''Bearer tok'')]\<rparr>"

definition two_threads_df :: dataframe where
  "two_threads_df = pd_DataFrame [one_thread_row, other_thread_row]"

definition views_df :: dataframe where
  "views_df = pd_DataFrame [[(''media_id'', JStr ''1''), (''views'', JInt 7)]]"

section \<open>Validation against the allow-lists\<close>

lemma error_code_build_error:
  "c \<noteq> [] \<Longrightarrow> error_code (build_error m (Some c)) = Some c"
  by (simp add: error_code_def build_error_def Let_def)

lemma error_message_build_error: "error_message (build_error m c) = Some m"
  by (cases c) (simp_all add: error_message_def build_error_def Let_def)

lemma invalid_metrics_error:
  assumes "\<exists>m \<in> set metrics. m \<notin> set VALID_METRICS_user"
  shows "get_threads_user_insights env net tok metrics since until breakdown =
           (Inr (build_error (''Invalid metric(s): ''
              @ join '', '' (filter (\<lambda>m. m \<notin> set VALID_METRICS_user) metrics)
              @ ''. Valid metrics: '' @ join '', '' VALID_METRICS_user)
              (Some ''INVALID_INPUT'')), net)"
proof -
  from assms have "filter (\<lambda>m. m \<notin> set VALID_METRICS_user) metrics \<noteq> []"
    by (simp add: filter_empty_conv)
  then show ?thesis
    by (simp add: get_threads_user_insights_def)
qed

lemma invalid_fields_error:
  assumes "\<exists>f \<in> set field_list. f \<notin> set VALID_FIELDS"
  shows "get_list_user_threads env net tok field_list since until limit before after =
           (Inr (build_error (''Invalid field(s): ''
              @ join '', '' (filter (\<lambda>f. f \<notin> set VALID_FIELDS) field_list)
              @ ''. Valid fields: '' @ join '', '' VALID_FIELDS)
              (Some ''INVALID_INPUT'')), net)"
proof -
  from assms have "filter (\<lambda>f. f \<notin> set VALID_FIELDS) field_list \<noteq> []"
    by (simp add: filter_empty_conv)
  then show ?thesis
    by (simp add: get_list_user_threads_def)
qed

text \<open>
  C4. When a requested metric list (account insights) or field list (thread list)
  contains a name outside the endpoint's allow-list, the call returns an error value with
  code \<open>INVALID_INPUT\<close> whose message carries the comma-separated list of all the
  disallowed names, each verbatim and in request order, and the network is left as it
  was: no request is sent.
\<close>

theorem invalid_names_all_reported:
  "((\<exists>m \<in> set metrics. m \<notin> set VALID_METRICS_user) \<longrightarrow>
      (\<exists>r. get_threads_user_insights env net tok metrics since until breakdown = (Inr r, net)
         \<and> error_code r = Some ''INVALID_INPUT''
         \<and> error_message r = Some (''Invalid metric(s): ''
             @ join '', '' (filter (\<lambda>m. m \<notin> set VALID_METRICS_user) metrics)
             @ ''. Valid metrics: '' @ join '', '' VALID_METRICS_user)))
   \<and> ((\<exists>f \<in> set field_list. f \<notin> set VALID_FIELDS) \<longrightarrow>
      (\<exists>r. get_list_user_threads env net tok field_list since until limit before after
              = (Inr r, net)
         \<and> error_code r = Some ''INVALID_INPUT''
         \<and> error_message r = Some (''Invalid field(s): ''
             @ join '', '' (filter (\<lambda>f. f \<notin> set VALID_FIELDS) field_list)
             @ ''. Valid fields: '' @ join '', '' VALID_FIELDS)))"
  by (simp add: invalid_metrics_error invalid_fields_error error_code_build_error
      error_message_build_error)

theorem invalid_names_all_reported_witness:
  "(\<exists>m \<in> set [''likes'', ''bogus'', ''views'', ''nope'']. m \<notin> set VALID_METRICS_user)
   \<and> (\<exists>r. get_threads_user_insights scripted_env (start []) ''tok''
              [''likes'', ''bogus'', ''views'', ''nope''] None None None = (Inr r, start [])
         \<and> error_code r = Some ''INVALID_INPUT''
         \<and> error_message r = Some (''Invalid metric(s): bogus, nope. Valid metrics: '' @
              ''likes, replies, followers_count, follower_demographics, reposts, views, quotes''))
   \<and> (\<exists>f \<in> set [''id'', ''colour'', ''text'', ''shape'']. f \<notin> set VALID_FIELDS)
   \<and> (\<exists>r. get_list_user_threads scripted_env (start []) ''tok''
              [''id'', ''colour'', ''text'', ''shape''] None None None JNull JNull
             = (Inr r, start [])
         \<and> error_code r = Some ''INVALID_INPUT''
         \<and> (\<exists>rest. error_message r = Some (''Invalid field(s): colour, shape. Valid fields: ''
              @ rest)))"
proof -
  have m: "\<exists>m \<in> set [''likes'', ''bogus'', ''views'', ''nope'']. m \<notin> set VALID_METRICS_user"
    by (simp add: VALID_METRICS_user_def)
  have f: "\<exists>f \<in> set [''id'', ''colour'', ''text'', ''shape'']. f \<notin> set VALID_FIELDS"
    by (simp add: VALID_FIELDS_def)
  have fm: "filter (\<lambda>m. m \<notin> set VALID_METRICS_user) [''likes'', ''bogus'', ''views'', ''nope'']
              = [''bogus'', ''nope'']"
    by (simp add: VALID_METRICS_user_def)
  have ff: "filter (\<lambda>f. f \<notin> set VALID_FIELDS) [''id'', ''colour'', ''text'', ''shape'']
              = [''colour'', ''shape'']"
    by (simp add: VALID_FIELDS_def)
  have jm: "join '', '' VALID_METRICS_user =
      ''likes, replies, followers_count, follower_demographics, reposts, views, quotes''"
    by (simp add: VALID_METRICS_user_def)
  note t = invalid_names_all_reported
    [of "[''likes'', ''bogus'', ''views'', ''nope'']" scripted_env "start []" "''tok''"
        None None None "[''id'', ''colour'', ''text'', ''shape'']" None JNull JNull]
  from t m f show ?thesis
    unfolding fm ff jm by auto
qed

section \<open>Requests and their parameters\<close>

lemma issued_same: "issued net net = []"
  by (simp add: issued_def)

lemma not_answered_same: "\<not> answered env net net out"
  by (simp add: answered_def issued_same)

lemma send_eq:
  "send env net req =
     (fst (transport env (world net) req),
      \<lparr>world = snd (transport env (world net) req), sent = sent net @ [req]\<rparr>)"
  by (simp add: send_def split: prod.splits)

lemma issued_sent: "issued net \<lparr>world = w, sent = sent net @ [req]\<rparr> = [req]"
  by (simp add: issued_def)

lemma answered_sent:
  "answered env net \<lparr>world = w, sent = sent net @ [req]\<rparr> out
     \<longleftrightarrow> fst (transport env (world net) req) = out"
  by (simp add: answered_def issued_sent)

lemma optional_param_zero: "(k', JInt 0) \<notin> set (optional_param k v)"
  by (cases v) (auto simp: optional_param_def)

lemma optional_param_keys: "k' \<in> fst ` set (optional_param k v) \<Longrightarrow> k' = k \<and> int_truthy v"
  by (auto simp: optional_param_def split: if_splits)

lemma user_insights_params:
  assumes "req \<in> set (issued net (snd (get_threads_user_insights env net tok metrics since until breakdown)))"
  shows "params req = [(''metric'', JStr (join '','' metrics))] @ optional_param ''since'' since
            @ optional_param ''until'' until
            @ (if str_truthy breakdown then [(''breakdown'', JStr (the breakdown))] else [])"
proof (cases "filter (\<lambda>m. m \<notin> set VALID_METRICS_user) metrics \<noteq> []
            \<or> (str_truthy breakdown \<and> the breakdown \<notin> set VALID_BREAKDOWNS)")
  case True
  then have "snd (get_threads_user_insights env net tok metrics since until breakdown) = net"
    by (auto simp: get_threads_user_insights_def Let_def)
  with assms show ?thesis by (simp add: issued_same)
next
  case False
  with assms show ?thesis
    by (simp add: get_threads_user_insights_def Let_def send_eq issued_sent
        split: outcome.splits if_splits)
qed


lemma list_threads_params:
  assumes "req \<in> set (issued net (snd (get_list_user_threads env net tok field_list since until
             limit before after)))"
  shows "params req = [(''fields'', JStr (join '','' field_list))] @ optional_param ''since'' since
            @ optional_param ''until'' until @ optional_param ''limit'' limit
            @ (if truthy before then [(''before'', before)]
               else if truthy after then [(''after'', after)] else [])"
proof (cases "filter (\<lambda>f. f \<notin> set VALID_FIELDS) field_list \<noteq> []")
  case True
  then have "snd (get_list_user_threads env net tok field_list since until limit before after) = net"
    by (simp add: get_list_user_threads_def Let_def)
  with assms show ?thesis by (simp add: issued_same)
next
  case False
  with assms show ?thesis
    by (simp add: get_list_user_threads_def Let_def send_eq issued_sent
        split: outcome.splits if_splits)
qed

lemma optional_param_Some0: "optional_param k (Some 0) = []"
  by (simp add: optional_param_def)

lemma optional_param_other: "k' \<noteq> k \<Longrightarrow> k' \<notin> fst ` set (optional_param k v)"
  by (auto simp: optional_param_def split: if_splits)

lemma zero_not_in_params:
  assumes "ps = [(k0, v0)] @ optional_param ''since'' since @ optional_param ''until'' until
             @ optional_param ''limit'' limit @ rest"
    and "k0 \<notin> {''since'', ''until'', ''limit''}"
    and "fst ` set rest \<inter> {''since'', ''until'', ''limit''} = {}"
  shows "(since = Some 0 \<longrightarrow> ''since'' \<notin> fst ` set ps)
       \<and> (until = Some 0 \<longrightarrow> ''until'' \<notin> fst ` set ps)
       \<and> (limit = Some 0 \<longrightarrow> ''limit'' \<notin> fst ` set ps)
       \<and> (''since'', JInt 0) \<notin> set ps \<and> (''until'', JInt 0) \<notin> set ps
       \<and> (''limit'', JInt 0) \<notin> set ps"
proof -
  have r: "''since'' \<notin> fst ` set rest" "''until'' \<notin> fst ` set rest" "''limit'' \<notin> fst ` set rest"
    using assms(3) by auto
  then have r0: "(''since'', JInt 0) \<notin> set rest" "(''until'', JInt 0) \<notin> set rest"
    "(''limit'', JInt 0) \<notin> set rest"
    by force+
  show ?thesis
    using assms(2) r r0
    by (auto simp: assms(1) image_Un optional_param_zero optional_param_Some0
        optional_param_other)
qed

text \<open>
  C10. In every request that \<open>get_threads_user_insights\<close> or \<open>get_list_user_threads\<close>
  issues, a \<open>since\<close>, \<open>until\<close> or \<open>limit\<close> argument that is 0 has no query parameter at
  all, and no such parameter ever carries the value 0: the code tests the truth value of
  the argument, so the epoch timestamp 0 and a zero limit are never transmitted.
\<close>

theorem zero_bounds_never_sent:
  "(\<forall>req \<in> set (issued net (snd (get_threads_user_insights env net tok metrics since until
                                  breakdown))).
      (since = Some 0 \<longrightarrow> ''since'' \<notin> fst ` set (params req))
    \<and> (until = Some 0 \<longrightarrow> ''until'' \<notin> fst ` set (params req))
    \<and> (''since'', JInt 0) \<notin> set (params req) \<and> (''until'', JInt 0) \<notin> set (params req))
   \<and> (\<forall>req \<in> set (issued net (snd (get_list_user_threads env net tok field_list since until
                                    limit before after))).
      (since = Some 0 \<longrightarrow> ''since'' \<notin> fst ` set (params req))
    \<and> (until = Some 0 \<longrightarrow> ''until'' \<notin> fst ` set (params req))
    \<and> (limit = Some 0 \<longrightarrow> ''limit'' \<notin> fst ` set (params req))
    \<and> (''since'', JInt 0) \<notin> set (params req) \<and> (''until'', JInt 0) \<notin> set (params req)
    \<and> (''limit'', JInt 0) \<notin> set (params req))"
proof (rule conjI; rule ballI)
  fix req
  assume "req \<in> set (issued net (snd (get_threads_user_insights env net tok metrics since until
                                  breakdown)))"
  then have "params req = [(''metric'', JStr (join '','' metrics))] @ optional_param ''since'' since
            @ optional_param ''until'' until @ optional_param ''limit'' None
            @ (if str_truthy breakdown then [(''breakdown'', JStr (the breakdown))] else [])"
    by (simp add: user_insights_params optional_param_def)
  then have "(since = Some 0 \<longrightarrow> ''since'' \<notin> fst ` set (params req))
       \<and> (until = Some 0 \<longrightarrow> ''until'' \<notin> fst ` set (params req))
       \<and> (None = Some (0::int) \<longrightarrow> ''limit'' \<notin> fst ` set (params req))
       \<and> (''since'', JInt 0) \<notin> set (params req) \<and> (''until'', JInt 0) \<notin> set (params req)
       \<and> (''limit'', JInt 0) \<notin> set (params req)"
    by (rule zero_not_in_params) auto
  then show "(since = Some 0 \<longrightarrow> ''since'' \<notin> fst ` set (params req))
    \<and> (until = Some 0 \<longrightarrow> ''until'' \<notin> fst ` set (params req))
    \<and> (''since'', JInt 0) \<notin> set (params req) \<and> (''until'', JInt 0) \<notin> set (params req)"
    by simp
next
  fix req
  assume "req \<in> set (issued net (snd (get_list_user_threads env net tok field_list since until
                                    limit before after)))"
  then have "params req = [(''fields'', JStr (join '','' field_list))]
            @ optional_param ''since'' since
            @ optional_param ''until'' until @ optional_param ''limit'' limit
            @ (if truthy before then [(''before'', before)]
               else if truthy after then [(''after'', after)] else [])"
    by (rule list_threads_params)
  then show "(since = Some 0 \<longrightarrow> ''since'' \<notin> fst ` set (params req))
    \<and> (until = Some 0 \<longrightarrow> ''until'' \<notin> fst ` set (params req))
    \<and> (limit = Some 0 \<longrightarrow> ''limit'' \<notin> fst ` set (params req))
    \<and> (''since'', JInt 0) \<notin> set (params req) \<and> (''until'', JInt 0) \<notin> set (params req)
    \<and> (''limit'', JInt 0) \<notin> set (params req)"
    by (rule zero_not_in_params) auto
qed


theorem zero_bounds_never_sent_witness:
  "(\<exists>req. req \<in> set (issued (start [Response 200 (JObj [])])
              (snd (get_threads_user_insights scripted_env (start [Response 200 (JObj [])])
                      ''tok'' [''views''] (Some 0) (Some 86400) None)))
      \<and> ''since'' \<notin> fst ` set (params req) \<and> (''until'', JInt 86400) \<in> set (params req))
   \<and> (\<exists>req. req \<in> set (issued (start [Response 200 (JObj [])])
              (snd (get_list_user_threads scripted_env (start [Response 200 (JObj [])])
                      ''tok'' [''id''] (Some 86400) (Some 0) (Some 0) JNull JNull)))
      \<and> ''until'' \<notin> fst ` set (params req) \<and> ''limit'' \<notin> fst ` set (params req)
      \<and> (''since'', JInt 86400) \<in> set (params req))"
proof -
  let ?n = "start [Response 200 (JObj [])]"
  let ?a = "issued ?n (snd (get_threads_user_insights scripted_env ?n ''tok'' [''views'']
                             (Some 0) (Some 86400) None))"
  let ?b = "issued ?n (snd (get_list_user_threads scripted_env ?n ''tok'' [''id'']
                             (Some 86400) (Some 0) (Some 0) JNull JNull))"
  have a: "?a = [\<lparr>meth = GET, url = ''https://graph.threads.net/me/threads_insights'',
                   params = [(''metric'', JStr ''views''), (''until'', JInt 86400)], form = [],
                   headers = [(''Authorization'', ''Bearer tok'')]\<rparr>]"
    by (simp add: get_threads_user_insights_def VALID_METRICS_user_def optional_param_def
        send_eq issued_def scripted_env_def scripted_def start_def)
  have b: "?b = [\<lparr>meth = GET, url = ''https://graph.threads.net/me/threads'',
                   params = [(''fields'', JStr ''id''), (''since'', JInt 86400)], form = [],
                   headers = [(''Authorization'', ''Bearer tok'')]\<rparr>]"
    by (simp add: get_list_user_threads_def VALID_FIELDS_def optional_param_def
        send_eq issued_def scripted_env_def scripted_def start_def)
  note t = zero_bounds_never_sent [of ?n scripted_env "''tok''" "[''views'']" "Some 0"
      "Some 86400" None, THEN conjunct1]
  note u = zero_bounds_never_sent [where net = ?n and env = scripted_env and tok = "''tok''"
      and field_list = "[''id'']" and since = "Some 86400" and until = "Some 0"
      and limit = "Some 0" and before = JNull and after = JNull, THEN conjunct2]
  from t have "\<forall>req \<in> set ?a. ''since'' \<notin> fst ` set (params req)" by simp
  moreover from u have "\<forall>req \<in> set ?b. ''until'' \<notin> fst ` set (params req)
      \<and> ''limit'' \<notin> fst ` set (params req)" by simp
  ultimately show ?thesis
    unfolding a b by simp
qed

section \<open>Token exchange without an authorization code\<close>

text \<open>
  C8, as the code has it. When \<^verbatim>\<open>urlparse\<close> accepts the redirect URL and the query string
  it finds has no \<open>code\<close> parameter, \<open>exchange_code_for_token\<close> returns an error value
  with code \<open>MISSING_CODE\<close>, leaves the client as it was and issues no request.
\<close>

theorem missing_code_no_request:
  assumes "url_query env redirect_url = Inr query"
    and "''code'' \<notin> fst ` set (parse_qs env query)"
  shows "\<exists>r. exchange_code_for_token env self net redirect_url = (Inr r, self, net)
           \<and> error_code r = Some ''MISSING_CODE''
           \<and> issued net (snd (snd (exchange_code_for_token env self net redirect_url))) = []"
proof -
  from assms(2) have "map_of (parse_qs env query) ''code'' = None"
    by (simp add: map_of_eq_None_iff)
  with assms(1) have "exchange_code_for_token env self net redirect_url =
           (Inr (build_error ''Authorization code not found in the URL.'' (Some ''MISSING_CODE'')),
            self, net)"
    by (simp add: exchange_code_for_token_def auth_code_of_def)
  then show ?thesis
    by (simp add: issued_same error_code_build_error)
qed

lemma denied_url_query: "plain_url_query denied_url = Inr ''state=xyz&error=denied''"
  by (simp add: plain_url_query_def after_scheme_def scheme_chars_def denied_url_def)

theorem missing_code_no_request_witness:
  "url_query scripted_env denied_url = Inr ''state=xyz&error=denied''
   \<and> ''code'' \<notin> fst ` set (parse_qs scripted_env ''state=xyz&error=denied'')
   \<and> (\<exists>r. exchange_code_for_token scripted_env demo_client (start [Response 200 (JObj [])])
            denied_url
          = (Inr r, demo_client, start [Response 200 (JObj [])])
       \<and> error_code r = Some ''MISSING_CODE'')"
proof -
  have q: "url_query scripted_env denied_url = Inr ''state=xyz&error=denied''"
    by (simp add: scripted_env_def denied_url_query)
  have h: "''code'' \<notin> fst ` set (parse_qs scripted_env ''state=xyz&error=denied'')"
    by (simp add: scripted_env_def plain_parse_qs_def)
  from missing_code_no_request [OF q h, of demo_client "start [Response 200 (JObj [])]"] q h
  show ?thesis by blast
qed

text \<open>
  C8 as first stated, for every redirect URL whose query string lacks a \<open>code\<close>
  parameter, fails: on a URL that \<^verbatim>\<open>urlparse\<close> rejects, here one whose host opens a square
  bracket and never closes it, the call raises \<open>ValueError\<close> before the check for the
  code is reached, and no error value is returned.
\<close>

theorem malformed_redirect_url_raises:
  "exchange_code_for_token scripted_env demo_client (start [])
     ''https://[app.example/cb?state=xyz&error=denied''
   = (Inl ValueError, demo_client, start [])"
  by (simp add: exchange_code_for_token_def scripted_env_def plain_url_query_def
      after_scheme_def scheme_chars_def)

section \<open>Follower demographics\<close>

text \<open>
  C2. For a \<open>follower_demographics\<close> item the spec promises a null \<open>dimension_value\<close>
  when a result's \<open>dimension_values\<close> array is empty. The code reads
  \<^verbatim>\<open>result.get("dimension_values", [None])[0]\<close>: the default covers a missing key only, and
  on an empty array the subscript raises \<open>IndexError\<close>, so no table is returned.
\<close>

theorem empty_dimension_values_raise:
  "convert_account_insights_to_dataframe
     (JObj [(''data'', JList
        [JObj [(''name'', JStr ''follower_demographics''),
               (''total_value'', JObj [(''breakdowns'', JList
                  [JObj [(''dimension_keys'', JList [JStr ''country'']),
                         (''results'', JList
                            [JObj [(''dimension_values'', JList []),
                                   (''value'', JInt 5)]])]])])]])])
   = Inl IndexError"
  by (simp add: convert_account_insights_to_dataframe_def paging_window_def item_rows_def
      base_row_of_def breakdown_rows_def result_row_def py_join_def bindE_def)



section \<open>The total of a views item\<close>

lemma py_in_obj: "py_in k (JObj kvs) = Inr (map_of kvs k \<noteq> None)"
  by (simp add: map_of_eq_None_iff)

lemma py_item_Inr: "py_item x k = Inr v \<longleftrightarrow> (\<exists>kvs. x = JObj kvs \<and> map_of kvs k = Some v)"
  by (cases x) (auto split: option.splits)

lemma bindE_Inr [simp]: "bindE (Inr x) f = f x"
  by (simp add: bindE_def)

lemma bindE_Inl [simp]: "bindE (Inl e) f = Inl e"
  by (simp add: bindE_def)

lemma bindE_eq_Inr: "bindE m f = Inr y \<longleftrightarrow> (\<exists>x. m = Inr x \<and> f x = Inr y)"
  by (cases m) simp_all

lemma mapE_split:
  "mapE f (before @ x # after) = Inr rss \<Longrightarrow>
   \<exists>rb r ra. mapE f before = Inr rb \<and> f x = Inr r \<and> mapE f after = Inr ra \<and> rss = rb @ r # ra"
proof (induction before arbitrary: rss)
  case Nil
  then show ?case by (auto simp: bindE_eq_Inr)
next
  case (Cons b before)
  from Cons.prems obtain y ys where y: "f b = Inr y" and ys: "mapE f (before @ x # after) = Inr ys"
    and rss: "rss = y # ys"
    by (auto simp: bindE_eq_Inr)
  from Cons.IH [OF ys] y rss show ?case by auto
qed

lemma sum_views: "list_all views_entry vs \<Longrightarrow>
   foldE add_value acc vs = Inr (acc + sum_list (map entry_value vs))"
proof (induction vs arbitrary: acc)
  case Nil
  then show ?case by simp
next
  case (Cons v vs)
  from Cons.prems have "add_value acc v = Inr (acc + entry_value v)"
    by (auto simp: views_entry_def add_value_def entry_value_def
        split: json.splits option.splits)
  with Cons show ?case by (simp add: add.assoc)
qed

lemma map_of_dict_update: "map_of (dict_update d kvs) = map_of d ++ map_of (rev kvs)"
proof (induction kvs arbitrary: d)
  case Nil
  then show ?case by (simp add: dict_update_def)
next
  case (Cons kv kvs)
  have "dict_update d (kv # kvs) = dict_update (AList.update (fst kv) (snd kv) d) kvs"
    by (simp add: dict_update_def)
  then show ?case
    by (simp add: Cons.IH update_conv' map_add_upd_left fun_upd_def map_add_def
        fun_eq_iff split: option.splits)
qed

lemma views_item_rows:
  assumes "views_item kvs vs"
  shows "\<exists>row. item_rows since_val until_val (JObj kvs) = Inr [row]
           \<and> map_of row ''total_value'' = Some (JInt (sum_list (map entry_value vs)))
           \<and> map_of row ''value'' = Some JNull \<and> map_of row ''end_time'' = Some JNull"
proof -
  from assms have n: "map_of kvs ''name'' = Some (JStr ''views'')"
    and v: "map_of kvs ''values'' = Some (JList vs)" and e: "list_all views_entry vs"
    and t: "case map_of kvs ''total_value'' of
            None \<Rightarrow> True | Some (JObj t) \<Rightarrow> True | Some _ \<Rightarrow> False"
    by (simp_all add: views_item_def)
  from t obtain total_value where
    b: "bindE (py_get (JObj kvs) ''total_value'' (JObj [])) (\<lambda>total. py_get total ''value'' JNull)
          = Inr total_value"
    by (auto split: option.splits json.splits)
  then have base: "base_row_of since_val until_val (JObj kvs) =
      Inr [(''name'', JStr ''views''),
           (''title'', case map_of kvs ''title'' of None \<Rightarrow> JNull | Some x \<Rightarrow> x),
           (''description'', case map_of kvs ''description'' of None \<Rightarrow> JNull | Some x \<Rightarrow> x),
           (''since'', since_val), (''until'', until_val), (''total_value'', total_value),
           (''id'', case map_of kvs ''id'' of None \<Rightarrow> JNull | Some x \<Rightarrow> x)]"
    using n by (auto simp: base_row_of_def bindE_eq_Inr)
  show ?thesis
    by (simp add: item_rows_def base n v py_in_obj sum_views [OF e] map_of_dict_update
        del: py_in.simps)
qed

lemma convert_rows:
  assumes "convert_account_insights_to_dataframe response = Inr df"
    and "py_item response ''data'' = Inr (JList items)"
  shows "\<exists>window rss. paging_window response = Inr window
           \<and> mapE (item_rows (fst window) (snd window)) items = Inr rss
           \<and> df = pd_DataFrame (concat rss)"
proof -
  from assms(2) obtain r where r: "response = JObj r" "map_of r ''data'' = Some (JList items)"
    by (auto simp: py_item_Inr)
  with assms(1) show ?thesis
    by (auto simp: convert_account_insights_to_dataframe_def py_in_obj bindE_eq_Inr
        simp del: py_in.simps split: if_splits)
qed

text \<open>
  C5. In a response that \<open>convert_account_insights_to_dataframe\<close> turns into a table, an
  item named \<open>views\<close> with a \<open>values\<close> array contributes exactly one row, between the
  rows of the items before it and those of the items after it; the row's \<open>total_value\<close>
  is the sum of the entries' \<open>value\<close> fields, an entry without one counting 0, and its
  \<open>value\<close> and \<open>end_time\<close> are null. On \<open>[{value: 3}, {value: 5}]\<close> the total is 8.
\<close>

theorem views_item_one_row:
  assumes "views_item kvs vs"
    and "py_item response ''data'' = Inr (JList (before @ JObj kvs # after))"
    and "convert_account_insights_to_dataframe response = Inr df"
  shows "\<exists>window rb ra row.
           paging_window response = Inr window
         \<and> mapE (item_rows (fst window) (snd window)) before = Inr rb
         \<and> mapE (item_rows (fst window) (snd window)) after = Inr ra
         \<and> rows df = concat rb @ [row] @ concat ra
         \<and> map_of row ''total_value'' = Some (JInt (sum_list (map entry_value vs)))
         \<and> map_of row ''value'' = Some JNull
         \<and> map_of row ''end_time'' = Some JNull"
proof -
  from convert_rows [OF assms(3) assms(2)] obtain window rss where
    w: "paging_window response = Inr window"
    and m: "mapE (item_rows (fst window) (snd window)) (before @ JObj kvs # after) = Inr rss"
    and df: "df = pd_DataFrame (concat rss)"
    by blast
  from mapE_split [OF m] obtain rb r ra where
    rb: "mapE (item_rows (fst window) (snd window)) before = Inr rb"
    and r: "item_rows (fst window) (snd window) (JObj kvs) = Inr r"
    and ra: "mapE (item_rows (fst window) (snd window)) after = Inr ra"
    and rss: "rss = rb @ r # ra"
    by blast
  from views_item_rows [OF assms(1), of "fst window" "snd window"] r obtain row where
    "r = [row]" "map_of row ''total_value'' = Some (JInt (sum_list (map entry_value vs)))"
    "map_of row ''value'' = Some JNull" "map_of row ''end_time'' = Some JNull"
    by auto
  with w rb ra rss df show ?thesis
    by (auto simp: pd_DataFrame_def)
qed

theorem views_item_one_row_witness:
  "views_item [(''name'', JStr ''views''),
               (''values'', JList [JObj [(''value'', JInt 3)], JObj [(''value'', JInt 5)]])]
              [JObj [(''value'', JInt 3)], JObj [(''value'', JInt 5)]]
   \<and> (\<exists>df row. convert_account_insights_to_dataframe views_response = Inr df
         \<and> rows df = [row] \<and> map_of row ''total_value'' = Some (JInt 8)
         \<and> map_of row ''value'' = Some JNull \<and> map_of row ''end_time'' = Some JNull)"
proof -
  let ?vs = "[JObj [(''value'', JInt 3)], JObj [(''value'', JInt 5)]]"
  let ?kvs = "[(''name'', JStr ''views''), (''values'', JList ?vs)]"
  have v: "views_item ?kvs ?vs"
    by (simp add: views_item_def views_entry_def)
  have d: "py_item views_response ''data'' = Inr (JList ([] @ JObj ?kvs # []))"
    by (simp add: views_response_def)
  have "\<exists>df. convert_account_insights_to_dataframe views_response = Inr df"
    by (simp add: views_response_def convert_account_insights_to_dataframe_def paging_window_def
        item_rows_def base_row_of_def add_value_def)
  then obtain df where c: "convert_account_insights_to_dataframe views_response = Inr df" ..
  from views_item_one_row [OF v d c] have
    "\<exists>row. rows df = [row] \<and> map_of row ''total_value'' = Some (JInt 8)
         \<and> map_of row ''value'' = Some JNull \<and> map_of row ''end_time'' = Some JNull"
    by (auto simp: entry_value_def)
  with v c show ?thesis by blast
qed

section \<open>One row per media item, first value only\<close>

lemma dict_update_append: "dict_update d (xs @ ys) = dict_update (dict_update d xs) ys"
  by (simp add: dict_update_def)

lemma insight_into_row_wf:
  assumes "wf_insight insight"
  shows "insight_into_row row insight = Inr (dict_update row (metric_assignment insight))"
proof -
  from assms obtain kvs where i: "insight = JObj kvs"
    and s: "is_str (map_of kvs ''name'')" and v: "values_ok (map_of kvs ''values'')"
    by (cases insight) auto
  from s obtain n where n: "map_of kvs ''name'' = Some (JStr n)"
    by (auto elim: is_str.elims)
  from v consider
      (none) "map_of kvs ''values'' = None"
    | (empty) "map_of kvs ''values'' = Some (JList [])"
    | (entry) e rest where "map_of kvs ''values'' = Some (JList (JObj e # rest))"
    by (auto elim: values_ok.elims)
  then show ?thesis
  proof cases
    case none
    with i n show ?thesis
      by (simp add: insight_into_row_def py_in_obj dict_update_def del: py_in.simps)
  next
    case empty
    with i n show ?thesis
      by (simp add: insight_into_row_def py_in_obj dict_update_def del: py_in.simps)
  next
    case entry
    with i n show ?thesis
      by (simp add: insight_into_row_def py_in_obj dict_update_def del: py_in.simps)
  qed
qed

lemma foldE_insights:
  "list_all wf_insight insights \<Longrightarrow>
   foldE insight_into_row row insights
     = Inr (dict_update row (concat (map metric_assignment insights)))"
proof (induction insights arbitrary: row)
  case Nil
  then show ?case by (simp add: dict_update_def)
next
  case (Cons i insights)
  then show ?case
    by (simp add: insight_into_row_wf dict_update_append)
qed

lemma insight_item_rows_wf:
  assumes "map_of item ''media_id'' = Some media_id"
    and "map_of item ''insights'' = Some (JObj ins)"
    and "map_of ins ''data'' = Some (JList insights)"
    and "list_all wf_insight insights"
  shows "insight_item_rows (JObj item)
           = Inr [dict_update [(''media_id'', media_id)]
                    (concat (map metric_assignment insights))]"
  using assms
  by (simp add: insight_item_rows_def py_in_obj foldE_insights del: py_in.simps)

lemma map_of_dict_update_distinct:
  assumes "distinct (map fst kvs)" and "(k, v) \<in> set kvs"
  shows "map_of (dict_update d kvs) k = Some v"
proof -
  from assms have "map_of (rev kvs) k = Some v"
    by (simp add: distinct_map)
  then show ?thesis
    by (simp add: map_of_dict_update map_add_def)
qed

lemma map_of_dict_update_other:
  assumes "k \<notin> fst ` set kvs"
  shows "map_of (dict_update d kvs) k = map_of d k"
proof -
  from assms have "map_of (rev kvs) k = None"
    by (simp add: map_of_eq_None_iff)
  then show ?thesis
    by (simp add: map_of_dict_update map_add_def)
qed

text \<open>
  C6. In a list that \<open>insights_to_dataframe\<close> turns into a table, an item whose insights
  payload has a \<open>data\<close> array contributes exactly one row. The row starts as the item's
  identifier under \<open>media_id\<close> and receives, for every insight with a non-empty \<open>values\<close>
  array, in order, the assignment of the first entry's \<open>value\<close> to the insight's name;
  the entries after the first are never read. So when the names are those of different
  metrics, each such metric's column holds its first entry's value.
\<close>

theorem insights_first_value_only:
  assumes "map_of item ''media_id'' = Some media_id"
    and "map_of item ''insights'' = Some (JObj ins)"
    and "map_of ins ''data'' = Some (JList insights)"
    and "list_all wf_insight insights"
    and "insights_to_dataframe (before @ JObj item # after) = Inr df"
  shows "\<exists>rb ra row.
           mapE insight_item_rows before = Inr rb
         \<and> mapE insight_item_rows after = Inr ra
         \<and> rows df = concat rb @ [row] @ concat ra
         \<and> row = dict_update [(''media_id'', media_id)] (concat (map metric_assignment insights))
         \<and> (distinct (map fst (concat (map metric_assignment insights)))
              \<and> ''media_id'' \<notin> fst ` set (concat (map metric_assignment insights))
            \<longrightarrow> map_of row ''media_id'' = Some media_id
              \<and> (\<forall>kvs n e rest. JObj kvs \<in> set insights
                    \<and> map_of kvs ''name'' = Some (JStr n)
                    \<and> map_of kvs ''values'' = Some (JList (JObj e # rest))
                  \<longrightarrow> map_of row n = Some (case map_of e ''value'' of
                                              None \<Rightarrow> JNull | Some v \<Rightarrow> v)))"
proof -
  let ?as = "concat (map metric_assignment insights)"
  let ?row = "dict_update [(''media_id'', media_id)] ?as"
  from assms(5) obtain rss where m: "mapE insight_item_rows (before @ JObj item # after) = Inr rss"
    and df: "df = pd_DataFrame (concat rss)"
    by (auto simp: insights_to_dataframe_def bindE_eq_Inr)
  from mapE_split [OF m] insight_item_rows_wf [OF assms(1-4)] obtain rb ra where
    rb: "mapE insight_item_rows before = Inr rb" and ra: "mapE insight_item_rows after = Inr ra"
    and rss: "rss = rb @ [?row] # ra"
    by auto
  have cols: "map_of ?row ''media_id'' = Some media_id
      \<and> (\<forall>kvs n e rest. JObj kvs \<in> set insights
                    \<and> map_of kvs ''name'' = Some (JStr n)
                    \<and> map_of kvs ''values'' = Some (JList (JObj e # rest))
                  \<longrightarrow> map_of ?row n = Some (case map_of e ''value'' of
                                              None \<Rightarrow> JNull | Some v \<Rightarrow> v))"
    if d: "distinct (map fst ?as)" and k: "''media_id'' \<notin> fst ` set ?as"
  proof (intro conjI allI impI)
    from k show "map_of ?row ''media_id'' = Some media_id"
      by (simp add: map_of_dict_update_other)
  next
    fix kvs n e rest
    assume a: "JObj kvs \<in> set insights \<and> map_of kvs ''name'' = Some (JStr n)
                    \<and> map_of kvs ''values'' = Some (JList (JObj e # rest))"
    then have "metric_assignment (JObj kvs)
                 = [(n, case map_of e ''value'' of None \<Rightarrow> JNull | Some v \<Rightarrow> v)]"
      by simp
    with a have "(n, case map_of e ''value'' of None \<Rightarrow> JNull | Some v \<Rightarrow> v) \<in> set ?as"
      by force
    with d show "map_of ?row n = Some (case map_of e ''value'' of None \<Rightarrow> JNull | Some v \<Rightarrow> v)"
      by (rule map_of_dict_update_distinct)
  qed
  from rb ra rss df cols show ?thesis
    by (simp add: pd_DataFrame_def)
qed

theorem insights_first_value_only_witness:
  "map_of demo_item ''media_id'' = Some (JStr ''17'')
   \<and> map_of demo_item ''insights'' = Some (JObj demo_payload)
   \<and> map_of demo_payload ''data'' = Some (JList demo_insights)
   \<and> list_all wf_insight demo_insights
   \<and> distinct (map fst (concat (map metric_assignment demo_insights)))
   \<and> ''media_id'' \<notin> fst ` set (concat (map metric_assignment demo_insights))
   \<and> (\<exists>df row. insights_to_dataframe [JObj demo_item] = Inr df \<and> rows df = [row]
         \<and> map_of row ''media_id'' = Some (JStr ''17'')
         \<and> map_of row ''likes'' = Some (JInt 4)
         \<and> map_of row ''views'' = None)"
proof -
  have h1: "map_of demo_item ''media_id'' = Some (JStr ''17'')"
    and h2: "map_of demo_item ''insights'' = Some (JObj demo_payload)"
    by (simp_all add: demo_item_def)
  have h3: "map_of demo_payload ''data'' = Some (JList demo_insights)"
    by (simp add: demo_payload_def)
  have h4: "list_all wf_insight demo_insights"
    by (simp add: demo_insights_def)
  have as: "concat (map metric_assignment demo_insights) = [(''likes'', JInt 4)]"
    by (simp add: demo_insights_def)
  have h5: "distinct (map fst (concat (map metric_assignment demo_insights)))"
    and h6: "''media_id'' \<notin> fst ` set (concat (map metric_assignment demo_insights))"
    by (simp_all add: as)
  have "\<exists>df. insights_to_dataframe ([] @ JObj demo_item # []) = Inr df"
    by (simp add: insights_to_dataframe_def insight_item_rows_wf [OF h1 h2 h3 h4])
  then obtain df where c: "insights_to_dataframe ([] @ JObj demo_item # []) = Inr df" ..
  from insights_first_value_only [OF h1 h2 h3 h4 c] h5 h6 obtain row where
    r: "rows df = [row]" "row = dict_update [(''media_id'', JStr ''17'')] [(''likes'', JInt 4)]"
    and m: "map_of row ''media_id'' = Some (JStr ''17'')"
    and l: "\<forall>kvs n e rest. JObj kvs \<in> set demo_insights
                    \<and> map_of kvs ''name'' = Some (JStr n)
                    \<and> map_of kvs ''values'' = Some (JList (JObj e # rest))
                  \<longrightarrow> map_of row n = Some (case map_of e ''value'' of
                                              None \<Rightarrow> JNull | Some v \<Rightarrow> v)"
    by (auto simp: as)
  have "JObj [(''name'', JStr ''likes''),
            (''values'', JList [JObj [(''value'', JInt 4)], JObj [(''value'', JInt 9)]])]
          \<in> set demo_insights"
    by (simp add: demo_insights_def)
  with l have "map_of row ''likes'' = Some (JInt 4)"
    by fastforce
  moreover from r have "map_of row ''views'' = None"
    by (simp add: dict_update_def)
  ultimately show ?thesis
    using h1 h2 h3 h4 h5 h6 c r m by auto
qed

section \<open>Pagination\<close>

lemma data_page_body:
  assumes "data_page p"
  shows "py_in ''error'' p = Inr False"
    and "page_body acc p = Inr (acc @ page_data p, next_cursor p)"
proof -
  from assms obtain kvs where p: "p = JObj kvs" and e: "map_of kvs ''error'' = None"
    and d: "data_ok (map_of kvs ''data'')" and g: "paging_ok (map_of kvs ''paging'')"
    by (cases p) auto
  from p e show "py_in ''error'' p = Inr False"
    by (simp add: py_in_obj del: py_in.simps)
  from d have d': "bindE (py_get p ''data'' (JList [])) py_iter = Inr (page_data p)"
    by (auto simp: p elim!: data_ok.elims)
  from g have g': "bindE (py_get p ''paging'' (JObj [])) (\<lambda>paging.
         bindE (py_get paging ''cursors'' (JObj [])) (\<lambda>cursors.
         py_get cursors ''after'' JNull)) = Inr (next_cursor p)"
    by (auto simp: p elim!: paging_ok.elims cursors_ok.elims split: option.splits)
  from d' g' show "page_body acc p = Inr (acc @ page_data p, next_cursor p)"
    by (auto simp: page_body_def bindE_eq_Inr)
qed

lemma error_page_in: "error_page p \<Longrightarrow> py_in ''error'' p = Inr True"
  by (cases p) (simp_all add: py_in_obj del: py_in.simps)

lemma error_page_item: "error_page p \<Longrightarrow> \<exists>v. py_item p ''error'' = Inr v"
  by (cases p) auto

lemma loop_stops:
  assumes "get_list_user_threads env net tok fl since until (Some limit) JNull cur
             = (Inr final, net')"
    and "error_page final \<or> (data_page final \<and> \<not> truthy (next_cursor final))"
  shows "pagination_loop env tok fl since until limit acc cur net
           = Some (Inr (acc @ (if error_page final then [] else page_data final)), net')"
proof (cases "error_page final")
  case True
  from error_page_item [OF True] obtain v where "py_item final ''error'' = Inr v" ..
  with True assms(1) show ?thesis
    by (subst pagination_loop.simps) (simp add: error_page_in del: py_in.simps py_item.simps)
next
  case False
  with assms(2) have d: "data_page final" and c: "\<not> truthy (next_cursor final)"
    by auto
  from assms(1) False c show ?thesis
    by (subst pagination_loop.simps)
       (simp add: data_page_body [OF d] del: py_in.simps)
qed





section \<open>Empty stages of the pipeline\<close>

lemma thread_row_keys: "thread_row t = Inr r \<Longrightarrow> map fst r = thread_columns"
  unfolding thread_row_def bindE_eq_Inr thread_columns_def
  by (elim exE conjE) clarsimp

lemma mapE_length: "mapE f xs = Inr ys \<Longrightarrow> length ys = length xs"
  by (induction xs arbitrary: ys) (auto simp: bindE_eq_Inr)

lemma mapE_all: "mapE f xs = Inr ys \<Longrightarrow> \<forall>y \<in> set ys. \<exists>x \<in> set xs. f x = Inr y"
  by (induction xs arbitrary: ys) (fastforce simp: bindE_eq_Inr)+

lemma first_seen_Nil: "first_seen xs = [] \<longleftrightarrow> xs = []"
  by (cases xs) (auto simp: first_seen_def)

lemma threads_df_not_empty:
  assumes "threads_json \<noteq> []" and "threads_json_to_dataframe threads_json = Inr threads_df"
  shows "\<not> df_empty threads_df"
proof -
  from assms(2) obtain rs where m: "mapE thread_row threads_json = Inr rs"
    and df: "threads_df = pd_DataFrame rs"
    by (auto simp: threads_json_to_dataframe_def bindE_eq_Inr)
  from mapE_length [OF m] assms(1) obtain r rs' where rs: "rs = r # rs'"
    by (cases rs) auto
  with mapE_all [OF m] obtain t where "thread_row t = Inr r" by auto
  then have "map fst r = thread_columns" by (rule thread_row_keys)
  then have "r \<noteq> []" by (auto simp: thread_columns_def)
  with rs df show ?thesis
    by (simp add: df_empty_def pd_DataFrame_def first_seen_Nil)
qed

text \<open>
  C9. Let pagination return the thread records \<open>threads_json\<close>, leaving the network as
  \<open>net'\<close>. If there are none, \<open>fetch_and_merge_threads_with_insights\<close> returns the empty
  table and the network is still \<open>net'\<close>: nothing was requested after pagination, so the
  per-media insights fetcher was never invoked. Otherwise the table of threads is never
  empty (the test on it cannot fire); if no insights were fetched, or if the table of
  insights is empty, the function returns the table of threads as built, and raises
  nothing.
\<close>

theorem empty_stages_short_circuit:
  "fetch_all_threads_with_pagination env net tok fl since until 50 = Some (Inr threads_json, net')
   \<longrightarrow>
     (threads_json = [] \<longrightarrow>
        fetch_and_merge_threads_with_insights env net tok fl metrics client_name since until
          = Some (Inr (pd_DataFrame []), net'))
   \<and> (threads_json \<noteq> [] \<and> threads_json_to_dataframe threads_json = Inr threads_df \<longrightarrow>
        \<not> df_empty threads_df
      \<and> (fetch_insights_for_media_in_dataframe env net' tok threads_df metrics
            = (Inr insights_list, net'') \<longrightarrow>
           (insights_list = [] \<longrightarrow>
              fetch_and_merge_threads_with_insights env net tok fl metrics client_name since until
                = Some (Inr threads_df, net''))
         \<and> (insights_list \<noteq> [] \<and> insights_to_dataframe insights_list = Inr insights_df
              \<and> df_empty insights_df \<longrightarrow>
              fetch_and_merge_threads_with_insights env net tok fl metrics client_name since until
                = Some (Inr threads_df, net''))))"
  by (auto simp: fetch_and_merge_threads_with_insights_def threads_df_not_empty)

lemma data_page_no_error: "data_page p \<Longrightarrow> \<not> error_page p"
  by (cases p) auto

lemma one_page_run:
  assumes "data_page page" and "\<not> truthy (next_cursor page)"
  shows "fetch_all_threads_with_pagination scripted_env (start (Response 200 page # rest))
           ''tok'' [''id'', ''text''] None None 50
         = Some (Inr (page_data page), \<lparr>world = rest, sent = [threads_request]\<rparr>)"
proof -
  have "get_list_user_threads scripted_env (start (Response 200 page # rest)) ''tok''
          [''id'', ''text''] None None (Some 50) JNull JNull
        = (Inr page, \<lparr>world = rest, sent = [threads_request]\<rparr>)"
    by (simp add: get_list_user_threads_def VALID_FIELDS_def optional_param_def send_eq
        scripted_env_def scripted_def start_def threads_request_def)
  from loop_stops [OF this, of "[]"] assms show ?thesis
    by (simp add: fetch_all_threads_with_pagination_def data_page_no_error)
qed

lemma one_thread_table:
  "threads_json_to_dataframe [one_thread] = Inr (pd_DataFrame [one_thread_row])"
  by (simp add: threads_json_to_dataframe_def thread_row_def one_thread_def one_thread_row_def)

lemma media_call:
  "get_media_insights scripted_env \<lparr>world = w, sent = [threads_request]\<rparr> ''tok'' (JStr ''1'')
     [''views'']
   = (case w of
        [] \<Rightarrow> Inr (build_error ''Request failed: connection refused'' (Some ''REQUEST_FAILED''))
      | RequestException e # rest \<Rightarrow>
          Inr (build_error (''Request failed: '' @ e) (Some ''REQUEST_FAILED''))
      | LibraryException c # rest \<Rightarrow> Inl (LibraryError c)
      | Response status body # rest \<Rightarrow>
          if status = 200 then Inr body
          else Inr (build_error (plain_str body) (Some ''MEDIA_INSIGHTS_FAILED'')),
      \<lparr>world = tl w, sent = [threads_request, insights_request]\<rparr>)"
  by (simp add: get_media_insights_def VALID_METRICS_media_def send_eq scripted_env_def
      scripted_def insights_request_def format_value_def
      split: list.splits outcome.splits)

lemma id_column: "df_column (pd_DataFrame [one_thread_row]) ''id'' = Inr [JStr ''1'']"
  by (simp add: df_column_def pd_DataFrame_def first_seen_def one_thread_row_def)

lemma page_facts:
  "data_page empty_page" "\<not> truthy (next_cursor empty_page)" "page_data empty_page = []"
  "data_page one_thread_page" "\<not> truthy (next_cursor one_thread_page)"
  "page_data one_thread_page = [one_thread]"
  by (simp_all add: empty_page_def one_thread_page_def)

theorem empty_stages_short_circuit_witness:
  "(fetch_all_threads_with_pagination scripted_env (start [Response 200 empty_page]) ''tok''
        [''id'', ''text''] None None 50
      = Some (Inr [], \<lparr>world = [], sent = [threads_request]\<rparr>)
    \<and> fetch_and_merge_threads_with_insights scripted_env (start [Response 200 empty_page])
        ''tok'' [''id'', ''text''] [''views''] ''acme'' None None
      = Some (Inr (pd_DataFrame []), \<lparr>world = [], sent = [threads_request]\<rparr>))
   \<and> (fetch_all_threads_with_pagination scripted_env (start [Response 200 one_thread_page])
        ''tok'' [''id'', ''text''] None None 50
      = Some (Inr [one_thread], \<lparr>world = [], sent = [threads_request]\<rparr>)
    \<and> threads_json_to_dataframe [one_thread] = Inr (pd_DataFrame [one_thread_row])
    \<and> \<not> df_empty (pd_DataFrame [one_thread_row])
    \<and> fetch_insights_for_media_in_dataframe scripted_env
          \<lparr>world = [], sent = [threads_request]\<rparr> ''tok'' (pd_DataFrame [one_thread_row])
          [''views'']
        = (Inr [], \<lparr>world = [], sent = [threads_request, insights_request]\<rparr>)
    \<and> fetch_and_merge_threads_with_insights scripted_env (start [Response 200 one_thread_page])
        ''tok'' [''id'', ''text''] [''views''] ''acme'' None None
      = Some (Inr (pd_DataFrame [one_thread_row]),
              \<lparr>world = [], sent = [threads_request, insights_request]\<rparr>))
   \<and> (fetch_all_threads_with_pagination scripted_env
        (start [Response 200 one_thread_page, Response 200 (JObj [])])
        ''tok'' [''id'', ''text''] None None 50
      = Some (Inr [one_thread], \<lparr>world = [Response 200 (JObj [])], sent = [threads_request]\<rparr>)
    \<and> fetch_insights_for_media_in_dataframe scripted_env
          \<lparr>world = [Response 200 (JObj [])], sent = [threads_request]\<rparr> ''tok''
          (pd_DataFrame [one_thread_row]) [''views'']
        = (Inr [bare_item], \<lparr>world = [], sent = [threads_request, insights_request]\<rparr>)
    \<and> insights_to_dataframe [bare_item] = Inr (pd_DataFrame [])
    \<and> df_empty (pd_DataFrame [])
    \<and> fetch_and_merge_threads_with_insights scripted_env
        (start [Response 200 one_thread_page, Response 200 (JObj [])])
        ''tok'' [''id'', ''text''] [''views''] ''acme'' None None
      = Some (Inr (pd_DataFrame [one_thread_row]),
              \<lparr>world = [], sent = [threads_request, insights_request]\<rparr>))"
proof -
  have a1: "fetch_all_threads_with_pagination scripted_env (start [Response 200 empty_page])
        ''tok'' [''id'', ''text''] None None 50
      = Some (Inr [], \<lparr>world = [], sent = [threads_request]\<rparr>)"
    using one_page_run [of empty_page "[]"] by (simp add: page_facts)
  have b1: "fetch_all_threads_with_pagination scripted_env (start [Response 200 one_thread_page])
        ''tok'' [''id'', ''text''] None None 50
      = Some (Inr [one_thread], \<lparr>world = [], sent = [threads_request]\<rparr>)"
    using one_page_run [of one_thread_page "[]"] by (simp add: page_facts)
  have c1: "fetch_all_threads_with_pagination scripted_env
        (start [Response 200 one_thread_page, Response 200 (JObj [])])
        ''tok'' [''id'', ''text''] None None 50
      = Some (Inr [one_thread], \<lparr>world = [Response 200 (JObj [])], sent = [threads_request]\<rparr>)"
    using one_page_run [of one_thread_page "[Response 200 (JObj [])]"] by (simp add: page_facts)
  have ne: "[one_thread] \<noteq> []" by simp
  note td = one_thread_table
  have b2: "fetch_insights_for_media_in_dataframe scripted_env
          \<lparr>world = [], sent = [threads_request]\<rparr> ''tok'' (pd_DataFrame [one_thread_row])
          [''views'']
        = (Inr [], \<lparr>world = [], sent = [threads_request, insights_request]\<rparr>)"
    by (simp add: fetch_insights_for_media_in_dataframe_def id_column media_call build_error_def)
  have c2: "fetch_insights_for_media_in_dataframe scripted_env
          \<lparr>world = [Response 200 (JObj [])], sent = [threads_request]\<rparr> ''tok''
          (pd_DataFrame [one_thread_row]) [''views'']
        = (Inr [bare_item], \<lparr>world = [], sent = [threads_request, insights_request]\<rparr>)"
    by (simp add: fetch_insights_for_media_in_dataframe_def id_column media_call bare_item_def)
  have c3: "insights_to_dataframe [bare_item] = Inr (pd_DataFrame [])"
    by (simp add: insights_to_dataframe_def insight_item_rows_def bare_item_def)
  have c4: "df_empty (pd_DataFrame [])"
    by (simp add: df_empty_def pd_DataFrame_def)
  note ta = empty_stages_short_circuit [where env = scripted_env
      and net = "start [Response 200 empty_page]" and tok = "''tok''" and fl = "[''id'', ''text'']"
      and since = None and until = None and threads_json = "[]"
      and net' = "\<lparr>world = [], sent = [threads_request]\<rparr> :: outcome list net" and metrics = "[''views'']"
      and client_name = "''acme''"]
  note tb = empty_stages_short_circuit [where env = scripted_env
      and net = "start [Response 200 one_thread_page]" and tok = "''tok''"
      and fl = "[''id'', ''text'']" and since = None and until = None
      and threads_json = "[one_thread]"
      and net' = "\<lparr>world = [], sent = [threads_request]\<rparr> :: outcome list net" and metrics = "[''views'']"
      and client_name = "''acme''" and threads_df = "pd_DataFrame [one_thread_row]"
      and insights_list = "[]"
      and net'' = "\<lparr>world = [], sent = [threads_request, insights_request]\<rparr> :: outcome list net"]
  note tc = empty_stages_short_circuit [where env = scripted_env
      and net = "start [Response 200 one_thread_page, Response 200 (JObj [])]"
      and tok = "''tok''" and fl = "[''id'', ''text'']" and since = None and until = None
      and threads_json = "[one_thread]"
      and net' = "\<lparr>world = [Response 200 (JObj [])], sent = [threads_request]\<rparr>"
      and metrics = "[''views'']"
      and client_name = "''acme''" and threads_df = "pd_DataFrame [one_thread_row]"
      and insights_list = "[bare_item]" and insights_df = "pd_DataFrame []"
      and net'' = "\<lparr>world = [], sent = [threads_request, insights_request]\<rparr> :: outcome list net"]
  from ta a1 have a: "fetch_and_merge_threads_with_insights scripted_env
        (start [Response 200 empty_page])
        ''tok'' [''id'', ''text''] [''views''] ''acme'' None None
      = Some (Inr (pd_DataFrame []), \<lparr>world = [], sent = [threads_request]\<rparr>)"
    by simp
  from tb b1 ne td b2 have b: "\<not> df_empty (pd_DataFrame [one_thread_row])
    \<and> fetch_and_merge_threads_with_insights scripted_env (start [Response 200 one_thread_page])
        ''tok'' [''id'', ''text''] [''views''] ''acme'' None None
      = Some (Inr (pd_DataFrame [one_thread_row]),
              \<lparr>world = [], sent = [threads_request, insights_request]\<rparr>)"
    by simp
  from tc c1 ne td c2 c3 c4 have c: "fetch_and_merge_threads_with_insights scripted_env
        (start [Response 200 one_thread_page, Response 200 (JObj [])])
        ''tok'' [''id'', ''text''] [''views''] ''acme'' None None
      = Some (Inr (pd_DataFrame [one_thread_row]),
              \<lparr>world = [], sent = [threads_request, insights_request]\<rparr>)"
    by simp
  from a1 a b1 td b b2 c1 c2 c3 c4 c show ?thesis by blast
qed

section \<open>The left join of threads and insights\<close>

lemma no_thread_column_suffixed:
  "c \<in> set thread_columns \<Longrightarrow> c @ ''_x'' \<notin> set thread_columns"
  by (auto simp: thread_columns_def)

lemma thread_column_not_special:
  "c \<in> set thread_columns \<Longrightarrow> c \<notin> {''client'', ''captured_at'', ''media_id''}
     \<and> c @ ''_x'' \<notin> {''client'', ''captured_at'', ''media_id''}"
  by (auto simp: thread_columns_def)

lemma merge_name_inj:
  "inj_on (merge_name ov ''_x'') (set thread_columns)"
proof (rule inj_onI)
  fix c c'
  assume c: "c \<in> set thread_columns" and c': "c' \<in> set thread_columns"
    and e: "merge_name ov ''_x'' c = merge_name ov ''_x'' c'"
  from no_thread_column_suffixed [OF c] c' have "c' \<noteq> c @ ''_x''" by auto
  moreover from no_thread_column_suffixed [OF c'] c have "c \<noteq> c' @ ''_x''" by auto
  ultimately show "c = c'"
    using e by (auto simp: merge_name_def split: if_splits)
qed

lemma merge_name_not_special:
  "c \<in> set thread_columns \<Longrightarrow>
   merge_name ov ''_x'' c \<notin> {''client'', ''captured_at'', ''media_id''}"
  using thread_column_not_special [of c] by (auto simp: merge_name_def)

lemma map_of_rename_row:
  "inj_on f (fst ` set r) \<Longrightarrow> k \<in> fst ` set r \<Longrightarrow> map_of (rename_row f r) (f k) = map_of r k"
proof (induction r)
  case Nil
  then show ?case by simp
next
  case (Cons kv r)
  show ?case
  proof (cases "fst kv = k")
    case True
    then show ?thesis by (simp add: rename_row_def)
  next
    case False
    with Cons.prems have k: "k \<in> fst ` set r" and n: "f (fst kv) \<noteq> f k"
      by (auto simp: inj_on_def)
    from Cons.prems(1) have "inj_on f (fst ` set r)"
      by (auto simp: inj_on_def)
    from Cons.IH [OF this k] n False show ?thesis
      by (simp add: rename_row_def)
  qed
qed

lemma map_of_filter_key:
  "k \<noteq> c \<Longrightarrow> map_of (filter (\<lambda>kv. fst kv \<noteq> c) xs) k = map_of xs k"
  by (induction xs) auto

lemma filter_no_key:
  "c \<notin> fst ` set xs \<Longrightarrow> filter (\<lambda>kv. fst kv \<noteq> c) xs = xs"
  by (induction xs) auto

lemma map_of_append_left:
  "k \<in> fst ` set xs \<Longrightarrow> map_of (xs @ ys) k = map_of xs k"
  by (auto simp: map_add_def map_of_eq_None_iff split: option.splits)

lemma merged_rows:
  assumes "merge_threads_with_insights env client_name threads_df insights_df = Inr combined"
    and "\<forall>t \<in> set (rows threads_df). map fst t = thread_columns"
  shows "rows combined
           = concat (map (joined_rows env client_name threads_df insights_df) (rows threads_df))"
proof -
  let ?ov = "filter (\<lambda>c. c \<in> set (columns insights_df)) (columns threads_df)"
  let ?l = "merge_name ?ov ''_x''" and ?r = "merge_name ?ov ''_y''"
  let ?ms = "\<lambda>l. filter (\<lambda>r. map_of r ''media_id'' = map_of l ''id'') (rows insights_df)"
  let ?tag = "\<lambda>r. (''captured_at'', JStr (now_isoformat env)) # (''client'', JStr client_name)
                    # filter (\<lambda>kv. fst kv \<noteq> ''media_id'') r"
  define block where "block = (\<lambda>l. if ?ms l = [] then [rename_row ?l l]
                    else map (\<lambda>r. rename_row ?l l @ rename_row ?r r) (?ms l))"
  from assms(1) obtain m d k where
    m: "pd_merge_left threads_df insights_df ''id'' ''media_id'' = Inr m"
    and d: "df_drop m ''media_id'' = Inr d"
    and k: "df_insert d 0 ''client'' (JStr client_name) = Inr k"
    and c: "df_insert k 1 ''captured_at'' (JStr (now_isoformat env)) = Inr combined"
    by (auto simp: merge_threads_with_insights_def bindE_eq_Inr)
  from m have rm: "rows m = concat (map block (rows threads_df))"
    by (auto simp: pd_merge_left_def Let_def block_def split: if_splits)
  from d have rd: "rows d = map (filter (\<lambda>kv. fst kv \<noteq> ''media_id'')) (rows m)"
    by (auto simp: df_drop_def split: if_splits)
  from k have rk: "rows k = map (\<lambda>r. (''client'', JStr client_name) # r) (rows d)"
    by (auto simp: df_insert_def split: if_splits)
  from c have rc: "rows combined
      = map (\<lambda>r. (''captured_at'', JStr (now_isoformat env)) # r) (rows k)"
    by (auto simp: df_insert_def split: if_splits)
  have all: "rows combined = concat (map (\<lambda>t. map ?tag (block t)) (rows threads_df))"
    unfolding rc rk rd rm by (simp add: map_concat comp_def)
  have "map ?tag (block t) = joined_rows env client_name threads_df insights_df t"
    if t: "t \<in> set (rows threads_df)" for t
  proof -
    from assms(2) t have keys: "fst ` set t = set thread_columns"
      by (metis set_map)
    have "fst ` set (rename_row ?l t) = ?l ` fst ` set t"
      by (force simp: rename_row_def)
    with keys have rkeys: "fst ` set (rename_row ?l t) = ?l ` set thread_columns"
      by simp
    have "''media_id'' \<notin> fst ` set (rename_row ?l t)"
    proof
      assume "''media_id'' \<in> fst ` set (rename_row ?l t)"
      then obtain c where c: "c \<in> set thread_columns" and "?l c = ''media_id''"
        unfolding rkeys by auto
      with merge_name_not_special [OF c, of ?ov] show False by simp
    qed
    then have f: "filter (\<lambda>kv. fst kv \<noteq> ''media_id'') (rename_row ?l t) = rename_row ?l t"
      by (rule filter_no_key)
    have mc: "merged_column threads_df insights_df = ?l"
      "merged_right_column threads_df insights_df = ?r"
      by (simp_all add: fun_eq_iff merged_column_def merged_right_column_def)
    show ?thesis
      by (simp add: block_def joined_rows_def matching_def tagged_def insight_cells_def mc f)
  qed
  then have "map (\<lambda>t. map ?tag (block t)) (rows threads_df)
      = map (joined_rows env client_name threads_df insights_df) (rows threads_df)"
    by (intro map_cong refl)
  with all show ?thesis by simp
qed

lemma thread_rows_keys:
  assumes "threads_json_to_dataframe threads_json = Inr threads_df"
    and "t \<in> set (rows threads_df)"
  shows "map fst t = thread_columns"
proof -
  from assms(1) obtain rs where m: "mapE thread_row threads_json = Inr rs"
    and df: "threads_df = pd_DataFrame rs"
    by (auto simp: threads_json_to_dataframe_def bindE_eq_Inr)
  with assms(2) mapE_all [OF m] obtain j where "thread_row j = Inr t"
    by (auto simp: pd_DataFrame_def)
  then show ?thesis by (rule thread_row_keys)
qed

lemma tagged_cells:
  assumes "map fst t = thread_columns" and "c \<in> set thread_columns"
  shows "map_of (tagged env client_name threads_df insights_df t @ extra)
           (merged_column threads_df insights_df c) = map_of t c"
proof -
  let ?f = "merged_column threads_df insights_df"
  from assms(1) have keys: "fst ` set t = set thread_columns"
    by (metis set_map)
  have inj: "inj_on ?f (fst ` set t)"
    unfolding keys merged_column_def by (rule merge_name_inj)
  have "?f c \<notin> {''client'', ''captured_at'', ''media_id''}"
    unfolding merged_column_def using assms(2) by (rule merge_name_not_special)
  then have n: "?f c \<noteq> ''client''" "?f c \<noteq> ''captured_at''"
    by auto
  have "fst ` set (rename_row ?f t) = ?f ` fst ` set t"
    by (force simp: rename_row_def)
  with keys assms(2) have "?f c \<in> fst ` set (rename_row ?f t)"
    by auto
  then have "map_of ((rename_row ?f t) @ extra) (?f c) = map_of (rename_row ?f t) (?f c)"
    by (rule map_of_append_left)
  also from assms(2) keys have "\<dots> = map_of t c"
    by (intro map_of_rename_row [OF inj]) auto
  finally show ?thesis
    using n by (simp add: tagged_def)
qed

lemma joined_rows_cells:
  assumes "map fst t = thread_columns" and "r \<in> set (joined_rows env client_name threads_df insights_df t)"
    and "c \<in> set thread_columns"
  shows "map_of r (merged_column threads_df insights_df c) = map_of t c"
proof (cases "matching insights_df t = []")
  case True
  with assms(2) have "r = tagged env client_name threads_df insights_df t @ []"
    by (simp add: joined_rows_def)
  then show ?thesis
    using tagged_cells [OF assms(1,3)] by metis
next
  case False
  with assms(2) obtain i where
    "r = tagged env client_name threads_df insights_df t @ insight_cells threads_df insights_df i"
    by (auto simp: joined_rows_def)
  then show ?thesis
    using tagged_cells [OF assms(1,3)] by metis
qed

lemma disjoint_columns_unrenamed:
  assumes "set (columns threads_df) \<inter> set (columns insights_df) = {}"
  shows "rename_row (merged_column threads_df insights_df) t = t"
    and "insight_cells threads_df insights_df i = filter (\<lambda>kv. fst kv \<noteq> ''media_id'') i"
proof -
  from assms have ov: "filter (\<lambda>c. c \<in> set (columns insights_df)) (columns threads_df) = []"
    by (auto simp: filter_empty_conv)
  show "rename_row (merged_column threads_df insights_df) t = t"
    by (simp add: rename_row_def merged_column_def merge_name_def ov)
  show "insight_cells threads_df insights_df i = filter (\<lambda>kv. fst kv \<noteq> ''media_id'') i"
    by (simp add: insight_cells_def rename_row_def merged_right_column_def merge_name_def ov)
qed

lemma matched_cells:
  assumes "map fst t = thread_columns"
    and "set (columns threads_df) \<inter> set (columns insights_df) = {}"
    and "c \<notin> set thread_columns" and "c \<notin> {''media_id'', ''client'', ''captured_at''}"
  shows "map_of (tagged env client_name threads_df insights_df t
                 @ insight_cells threads_df insights_df i) c = map_of i c"
proof -
  from assms(1,3) have "c \<notin> fst ` set t"
    by (metis set_map)
  then have "map_of t c = None"
    by (simp add: map_of_eq_None_iff)
  moreover from assms(4) have "c \<noteq> ''media_id''" by simp
  then have "map_of (filter (\<lambda>kv. fst kv \<noteq> ''media_id'') i) c = map_of i c"
    by (rule map_of_filter_key)
  ultimately show ?thesis
    using assms(4) by (simp add: tagged_def disjoint_columns_unrenamed [OF assms(2)] map_add_def)
qed

text \<open>
  C7. In a run of \<open>fetch_and_merge_threads_with_insights\<close> that reaches the merge, the
  combined table is the left-outer join of the table of threads with the table of insights
  on the thread identifier: its rows are, for the thread rows in their order, the rows
  \<open>joined_rows\<close> gives for each, and for no other row. So every thread row \<open>t\<close> is
  preserved: each row it gives carries all its cells (under the column's merged name);
  for each insight row whose \<open>media_id\<close> is its identifier there is a combined row
  with the thread's cells followed by that insight row's cells, and when the two tables
  share no column name each metric column of that row holds the insight row's cell; when
  no insight row has its identifier, it gives the single row of the two constant cells
  \<open>captured_at\<close> and \<open>client\<close> and its own cells, nothing else, so every insight
  column is empty in it. The join is the left join of pandas, taken from its
  documentation.
\<close>

theorem left_join_keeps_every_thread:
  assumes "fetch_all_threads_with_pagination env net tok fl since until 50
             = Some (Inr threads_json, net')"
    and "threads_json_to_dataframe threads_json = Inr threads_df"
    and "fetch_insights_for_media_in_dataframe env net' tok threads_df metrics
             = (Inr insights_list, net'')"
    and "insights_to_dataframe insights_list = Inr insights_df"
    and "\<not> df_empty insights_df"
    and "fetch_and_merge_threads_with_insights env net tok fl metrics client_name since until
             = Some (Inr combined, net_end)"
    and "t \<in> set (rows threads_df)"
  shows "rows combined
           = concat (map (joined_rows env client_name threads_df insights_df) (rows threads_df))
       \<and> (\<exists>r \<in> set (rows combined).
             (\<forall>c \<in> set thread_columns.
                map_of r (merged_column threads_df insights_df c) = map_of t c)
           \<and> ((\<forall>i \<in> set (rows insights_df). map_of i ''media_id'' \<noteq> map_of t ''id'') \<longrightarrow>
                r = [(''captured_at'', JStr (now_isoformat env)), (''client'', JStr client_name)]
                    @ rename_row (merged_column threads_df insights_df) t))
       \<and> (\<forall>r \<in> set (joined_rows env client_name threads_df insights_df t).
             r \<in> set (rows combined)
           \<and> (\<forall>c \<in> set thread_columns.
                  map_of r (merged_column threads_df insights_df c) = map_of t c))
       \<and> (\<forall>i \<in> set (rows insights_df). map_of i ''media_id'' = map_of t ''id'' \<longrightarrow>
             tagged env client_name threads_df insights_df t
               @ insight_cells threads_df insights_df i \<in> set (rows combined)
           \<and> (set (columns threads_df) \<inter> set (columns insights_df) = {} \<longrightarrow>
                (\<forall>c. c \<notin> set thread_columns
                       \<and> c \<notin> {''media_id'', ''client'', ''captured_at''} \<longrightarrow>
                     map_of (tagged env client_name threads_df insights_df t
                             @ insight_cells threads_df insights_df i) c = map_of i c)))
       \<and> ((\<forall>i \<in> set (rows insights_df). map_of i ''media_id'' \<noteq> map_of t ''id'') \<longrightarrow>
             joined_rows env client_name threads_df insights_df t
               = [[(''captured_at'', JStr (now_isoformat env)), (''client'', JStr client_name)]
                  @ rename_row (merged_column threads_df insights_df) t])"
proof -
  let ?J = "joined_rows env client_name threads_df insights_df"
  let ?T = "tagged env client_name threads_df insights_df"
  from assms(2,7) have tj: "threads_json \<noteq> []"
    by (auto simp: threads_json_to_dataframe_def pd_DataFrame_def)
  from threads_df_not_empty [OF tj assms(2)] have te: "\<not> df_empty threads_df" .
  from assms(4,5) have il: "insights_list \<noteq> []"
    by (auto simp: insights_to_dataframe_def pd_DataFrame_def df_empty_def)
  from assms(1-5) tj te il have
    "fetch_and_merge_threads_with_insights env net tok fl metrics client_name since until
       = Some (merge_threads_with_insights env client_name threads_df insights_df, net'')"
    by (simp add: fetch_and_merge_threads_with_insights_def)
  with assms(6) have
    m: "merge_threads_with_insights env client_name threads_df insights_df = Inr combined"
    by simp
  have keys: "\<forall>t \<in> set (rows threads_df). map fst t = thread_columns"
    using thread_rows_keys [OF assms(2)] by blast
  with assms(7) have kt: "map fst t = thread_columns" by blast
  from merged_rows [OF m keys] have A: "rows combined = concat (map ?J (rows threads_df))" .
  with assms(7) have sub: "set (?J t) \<subseteq> set (rows combined)"
    by auto
  have un: "?J t = [?T t]"
    if "\<forall>i \<in> set (rows insights_df). map_of i ''media_id'' \<noteq> map_of t ''id''"
    using that by (simp add: joined_rows_def matching_def filter_empty_conv)
  have ne: "?J t \<noteq> []"
    by (simp add: joined_rows_def)
  then obtain r where r: "r \<in> set (?J t)"
    by (cases "?J t") auto
  have B: "\<exists>r \<in> set (rows combined).
             (\<forall>c \<in> set thread_columns.
                map_of r (merged_column threads_df insights_df c) = map_of t c)
           \<and> ((\<forall>i \<in> set (rows insights_df). map_of i ''media_id'' \<noteq> map_of t ''id'') \<longrightarrow>
                r = [(''captured_at'', JStr (now_isoformat env)), (''client'', JStr client_name)]
                    @ rename_row (merged_column threads_df insights_df) t)"
  proof (rule bexI [of _ r], intro conjI ballI impI)
    from r sub show "r \<in> set (rows combined)" by auto
  next
    fix c assume "c \<in> set thread_columns"
    with kt r show "map_of r (merged_column threads_df insights_df c) = map_of t c"
      by (rule joined_rows_cells)
  next
    assume "\<forall>i \<in> set (rows insights_df). map_of i ''media_id'' \<noteq> map_of t ''id''"
    from un [OF this] r
    show "r = [(''captured_at'', JStr (now_isoformat env)), (''client'', JStr client_name)]
                    @ rename_row (merged_column threads_df insights_df) t"
      by (simp add: tagged_def)
  qed
  have C: "\<forall>r \<in> set (?J t). r \<in> set (rows combined)
           \<and> (\<forall>c \<in> set thread_columns.
                  map_of r (merged_column threads_df insights_df c) = map_of t c)"
    using sub joined_rows_cells [OF kt] by blast
  have D: "\<forall>i \<in> set (rows insights_df). map_of i ''media_id'' = map_of t ''id'' \<longrightarrow>
             ?T t @ insight_cells threads_df insights_df i \<in> set (rows combined)
           \<and> (set (columns threads_df) \<inter> set (columns insights_df) = {} \<longrightarrow>
                (\<forall>c. c \<notin> set thread_columns
                       \<and> c \<notin> {''media_id'', ''client'', ''captured_at''} \<longrightarrow>
                     map_of (?T t @ insight_cells threads_df insights_df i) c = map_of i c))"
  proof (intro ballI impI conjI allI)
    fix i assume i: "i \<in> set (rows insights_df)" "map_of i ''media_id'' = map_of t ''id''"
    then have mi: "i \<in> set (matching insights_df t)"
      by (simp add: matching_def)
    then have "matching insights_df t \<noteq> []" by auto
    with mi have "?T t @ insight_cells threads_df insights_df i \<in> set (?J t)"
      by (simp add: joined_rows_def)
    with sub show "?T t @ insight_cells threads_df insights_df i \<in> set (rows combined)"
      by auto
  next
    fix i c
    assume "set (columns threads_df) \<inter> set (columns insights_df) = {}"
      and "c \<notin> set thread_columns \<and> c \<notin> {''media_id'', ''client'', ''captured_at''}"
    then show "map_of (?T t @ insight_cells threads_df insights_df i) c = map_of i c"
      using matched_cells [OF kt] by blast
  qed
  have E: "(\<forall>i \<in> set (rows insights_df). map_of i ''media_id'' \<noteq> map_of t ''id'') \<longrightarrow>
             ?J t = [[(''captured_at'', JStr (now_isoformat env)), (''client'', JStr client_name)]
                  @ rename_row (merged_column threads_df insights_df) t]"
    using un by (simp add: tagged_def)
  from A B C D E show ?thesis by blast
qed

lemma two_threads_columns: "columns two_threads_df = thread_columns"
  by (simp add: two_threads_df_def pd_DataFrame_def first_seen_def one_thread_row_def
      other_thread_row_def thread_columns_def)

lemma two_threads_rows: "rows two_threads_df = [one_thread_row, other_thread_row]"
  by (simp add: two_threads_df_def pd_DataFrame_def)

lemma views_df_parts:
  "columns views_df = [''media_id'', ''views'']"
  "rows views_df = [[(''media_id'', JStr ''1''), (''views'', JInt 7)]]"
  by (simp_all add: views_df_def pd_DataFrame_def first_seen_def)

lemma two_thread_table:
  "threads_json_to_dataframe [one_thread, other_thread] = Inr two_threads_df"
  by (simp add: threads_json_to_dataframe_def thread_row_def one_thread_def other_thread_def
      one_thread_row_def other_thread_row_def two_threads_df_def)

lemma build_error_has_error: "py_in ''error'' (build_error m c) = Inr True"
  by (simp add: build_error_def Let_def)

lemma build_error_printed:
  "(case py_item (build_error m c) ''error'' of Inl e \<Rightarrow> f e | Inr printed \<Rightarrow> g) = g"
  by (simp add: build_error_def Let_def)

lemma views_table:
  "insights_to_dataframe [JObj [(''media_id'', JStr ''1''), (''insights'', views_insights)]]
     = Inr views_df"
  by (simp add: insights_to_dataframe_def insight_item_rows_def insight_into_row_def
      views_insights_def views_df_def)

lemma no_shared_column: "merged_column two_threads_df views_df c = c"
  by (simp add: merged_column_def merge_name_def two_threads_columns views_df_parts
      thread_columns_def)

lemma two_thread_insights:
  "fetch_insights_for_media_in_dataframe scripted_env
     \<lparr>world = [Response 200 views_insights], sent = [threads_request]\<rparr> ''tok''
     two_threads_df [''views'']
   = (Inr [JObj [(''media_id'', JStr ''1''), (''insights'', views_insights)]],
      \<lparr>world = [], sent = [threads_request, insights_request, other_insights_request]\<rparr>)"
proof -
  have ids: "df_column two_threads_df ''id'' = Inr [JStr ''1'', JStr ''2'']"
    by (simp add: df_column_def two_threads_columns two_threads_rows thread_columns_def
        one_thread_row_def other_thread_row_def)
  have second: "get_media_insights scripted_env
      \<lparr>world = [], sent = [threads_request, insights_request]\<rparr> ''tok'' (JStr ''2'') [''views'']
    = (Inr (build_error ''Request failed: connection refused'' (Some ''REQUEST_FAILED'')),
       \<lparr>world = [], sent = [threads_request, insights_request, other_insights_request]\<rparr>)"
    by (simp add: get_media_insights_def VALID_METRICS_media_def send_eq scripted_env_def
        scripted_def other_insights_request_def format_value_def)
  have e: "py_in ''error'' views_insights = Inr False"
    by (simp add: views_insights_def)
  show ?thesis
    by (simp add: fetch_insights_for_media_in_dataframe_def ids media_call second e
        build_error_has_error build_error_printed del: py_in.simps py_item.simps)
qed

lemma merge_returns:
  assumes "''id'' \<in> set (columns l)" and "''media_id'' \<in> set (columns r)"
    and "set (columns l) \<inter> set (columns r) = {}"
    and "''client'' \<notin> set (columns l) \<union> set (columns r)"
    and "''captured_at'' \<notin> set (columns l) \<union> set (columns r)"
  shows "\<exists>combined. merge_threads_with_insights env client_name l r = Inr combined"
proof -
  from assms(3) have ov: "filter (\<lambda>c. c \<in> set (columns r)) (columns l) = []"
    by (auto simp: filter_empty_conv)
  have nm: "merge_name [] sfx = (\<lambda>c. c)" for sfx
    by (simp add: merge_name_def fun_eq_iff)
  from assms(1,2) have "\<exists>m. pd_merge_left l r ''id'' ''media_id'' = Inr m
      \<and> columns m = columns l @ columns r"
    by (simp add: pd_merge_left_def ov nm Let_def)
  then obtain m where
    m: "pd_merge_left l r ''id'' ''media_id'' = Inr m"
    and cm: "columns m = columns l @ columns r"
    by blast
  from assms(2) cm have "\<exists>d. df_drop m ''media_id'' = Inr d
      \<and> columns d = filter (\<lambda>x. x \<noteq> ''media_id'') (columns l @ columns r)"
    by (simp add: df_drop_def)
  then obtain d where d: "df_drop m ''media_id'' = Inr d"
    and cd: "columns d = filter (\<lambda>x. x \<noteq> ''media_id'') (columns l @ columns r)"
    by blast
  from assms(4) cd have "\<exists>k. df_insert d 0 ''client'' (JStr client_name) = Inr k
      \<and> columns k = ''client'' # columns d"
    by (auto simp: df_insert_def)
  then obtain k where k: "df_insert d 0 ''client'' (JStr client_name) = Inr k"
    and ck: "columns k = ''client'' # columns d"
    by blast
  from assms(5) cd ck have "\<exists>c. df_insert k 1 ''captured_at'' (JStr (now_isoformat env)) = Inr c"
    by (auto simp: df_insert_def)
  with m d k show ?thesis
    by (auto simp: merge_threads_with_insights_def)
qed

lemma views_row_joined:
  "joined_rows scripted_env ''acme'' two_threads_df views_df one_thread_row
     = [[(''captured_at'', JStr (now_isoformat scripted_env)), (''client'', JStr ''acme'')]
        @ one_thread_row @ [(''views'', JInt 7)]]"
  "joined_rows scripted_env ''acme'' two_threads_df views_df other_thread_row
     = [[(''captured_at'', JStr (now_isoformat scripted_env)), (''client'', JStr ''acme'')]
        @ other_thread_row]"
proof -
  have d: "set (columns two_threads_df) \<inter> set (columns views_df) = {}"
    by (simp add: two_threads_columns views_df_parts thread_columns_def)
  have m: "matching views_df one_thread_row = [[(''media_id'', JStr ''1''), (''views'', JInt 7)]]"
    "matching views_df other_thread_row = []"
    by (simp_all add: matching_def views_df_parts one_thread_row_def other_thread_row_def)
  show "joined_rows scripted_env ''acme'' two_threads_df views_df one_thread_row
     = [[(''captured_at'', JStr (now_isoformat scripted_env)), (''client'', JStr ''acme'')]
        @ one_thread_row @ [(''views'', JInt 7)]]"
    by (simp add: joined_rows_def m tagged_def disjoint_columns_unrenamed [OF d])
  show "joined_rows scripted_env ''acme'' two_threads_df views_df other_thread_row
     = [[(''captured_at'', JStr (now_isoformat scripted_env)), (''client'', JStr ''acme'')]
        @ other_thread_row]"
    by (simp add: joined_rows_def m tagged_def disjoint_columns_unrenamed [OF d])
qed

theorem left_join_keeps_every_thread_witness:
  "fetch_all_threads_with_pagination scripted_env
       (start [Response 200 two_thread_page, Response 200 views_insights]) ''tok''
       [''id'', ''text''] None None 50
     = Some (Inr [one_thread, other_thread],
             \<lparr>world = [Response 200 views_insights], sent = [threads_request]\<rparr>)
   \<and> threads_json_to_dataframe [one_thread, other_thread] = Inr two_threads_df
   \<and> fetch_insights_for_media_in_dataframe scripted_env
         \<lparr>world = [Response 200 views_insights], sent = [threads_request]\<rparr> ''tok''
         two_threads_df [''views'']
       = (Inr [JObj [(''media_id'', JStr ''1''), (''insights'', views_insights)]],
          \<lparr>world = [], sent = [threads_request, insights_request, other_insights_request]\<rparr>)
   \<and> insights_to_dataframe [JObj [(''media_id'', JStr ''1''), (''insights'', views_insights)]]
       = Inr views_df
   \<and> \<not> df_empty views_df
   \<and> rows two_threads_df = [one_thread_row, other_thread_row]
   \<and> rows views_df = [[(''media_id'', JStr ''1''), (''views'', JInt 7)]]
   \<and> map_of one_thread_row ''id'' = Some (JStr ''1'')
   \<and> map_of other_thread_row ''id'' = Some (JStr ''2'')
   \<and> set (columns two_threads_df) \<inter> set (columns views_df) = {}
   \<and> (\<exists>combined net_end.
         fetch_and_merge_threads_with_insights scripted_env
           (start [Response 200 two_thread_page, Response 200 views_insights]) ''tok''
           [''id'', ''text''] [''views''] ''acme'' None None
         = Some (Inr combined, net_end)
       \<and> rows combined
           = [[(''captured_at'', JStr (now_isoformat scripted_env)), (''client'', JStr ''acme'')]
                @ one_thread_row @ [(''views'', JInt 7)],
              [(''captured_at'', JStr (now_isoformat scripted_env)), (''client'', JStr ''acme'')]
                @ other_thread_row]
       \<and> map_of ([(''captured_at'', JStr (now_isoformat scripted_env)),
                   (''client'', JStr ''acme'')] @ one_thread_row @ [(''views'', JInt 7)])
             ''views'' = Some (JInt 7)
       \<and> map_of ([(''captured_at'', JStr (now_isoformat scripted_env)),
                   (''client'', JStr ''acme'')] @ one_thread_row @ [(''views'', JInt 7)])
             ''text'' = Some (JStr ''hello''))"
proof -
  let ?net = "start [Response 200 two_thread_page, Response 200 views_insights]"
  let ?tag = "[(''captured_at'', JStr (now_isoformat scripted_env)), (''client'', JStr ''acme'')]"
  let ?vrow = "[(''media_id'', JStr ''1''), (''views'', JInt 7)]"
  have pf: "data_page two_thread_page" "\<not> truthy (next_cursor two_thread_page)"
    "page_data two_thread_page = [one_thread, other_thread]"
    by (simp_all add: two_thread_page_def)
  have h1: "fetch_all_threads_with_pagination scripted_env ?net ''tok''
       [''id'', ''text''] None None 50
     = Some (Inr [one_thread, other_thread],
             \<lparr>world = [Response 200 views_insights], sent = [threads_request]\<rparr>)"
    using one_page_run [of two_thread_page "[Response 200 views_insights]"] by (simp add: pf)
  note h2 = two_thread_table and h3 = two_thread_insights and h4 = views_table
  have h5: "\<not> df_empty views_df"
    by (simp add: df_empty_def views_df_parts)
  have h6: "one_thread_row \<in> set (rows two_threads_df)"
    "other_thread_row \<in> set (rows two_threads_df)"
    by (simp_all add: two_threads_rows)
  have h7: "map_of one_thread_row ''id'' = Some (JStr ''1'')"
    "map_of other_thread_row ''id'' = Some (JStr ''2'')"
    by (simp_all add: one_thread_row_def other_thread_row_def)
  have h8: "set (columns two_threads_df) \<inter> set (columns views_df) = {}"
    by (simp add: two_threads_columns views_df_parts thread_columns_def)
  have "\<exists>combined. merge_threads_with_insights scripted_env ''acme'' two_threads_df views_df
          = Inr combined"
    by (rule merge_returns)
       (simp_all add: two_threads_columns views_df_parts thread_columns_def)
  then obtain combined where
    m: "merge_threads_with_insights scripted_env ''acme'' two_threads_df views_df = Inr combined" ..
  have te: "\<not> df_empty two_threads_df"
    by (simp add: df_empty_def two_threads_columns two_threads_rows thread_columns_def)
  from h1 h2 h3 h4 h5 te m have run:
    "fetch_and_merge_threads_with_insights scripted_env ?net ''tok''
           [''id'', ''text''] [''views''] ''acme'' None None
         = Some (Inr combined,
             \<lparr>world = [], sent = [threads_request, insights_request, other_insights_request]\<rparr>)"
    by (simp add: fetch_and_merge_threads_with_insights_def)
  note one = left_join_keeps_every_thread [OF h1 h2 h3 h4 h5 run h6(1)]
  note other = left_join_keeps_every_thread [OF h1 h2 h3 h4 h5 run h6(2)]
  have un: "\<forall>i \<in> set (rows views_df). map_of i ''media_id'' \<noteq> map_of other_thread_row ''id''"
    by (simp add: views_df_parts h7)
  note bare = other [THEN conjunct2, THEN conjunct2, THEN conjunct2, THEN conjunct2,
      THEN mp, OF un]
  note rc = one [THEN conjunct1]
  have rows: "rows combined = [?tag @ one_thread_row @ [(''views'', JInt 7)],
                               ?tag @ other_thread_row]"
    unfolding rc two_threads_rows
    by (simp add: views_row_joined(1) bare disjoint_columns_unrenamed [OF h8])
  have vi: "?vrow \<in> set (rows views_df)" "map_of ?vrow ''media_id'' = map_of one_thread_row ''id''"
    by (simp_all add: views_df_parts h7)
  have vc: "''views'' \<notin> set thread_columns
            \<and> ''views'' \<notin> {''media_id'', ''client'', ''captured_at''}"
    by (simp add: thread_columns_def)
  note matched = one [THEN conjunct2, THEN conjunct2, THEN conjunct2, THEN conjunct1,
      THEN bspec, OF vi(1), THEN mp, OF vi(2), THEN conjunct2, THEN mp, OF h8,
      THEN spec, THEN mp, OF vc]
  then have
    "map_of (tagged scripted_env ''acme'' two_threads_df views_df one_thread_row
             @ insight_cells two_threads_df views_df ?vrow) ''views'' = map_of ?vrow ''views''" .
  then have views: "map_of (?tag @ one_thread_row @ [(''views'', JInt 7)]) ''views''
      = Some (JInt 7)"
    by (simp add: tagged_def disjoint_columns_unrenamed [OF h8])
  have hello: "map_of (?tag @ one_thread_row @ [(''views'', JInt 7)]) ''text''
      = Some (JStr ''hello'')"
    by (simp add: one_thread_row_def)
  from run rows views hello have
    "\<exists>combined net_end.
         fetch_and_merge_threads_with_insights scripted_env ?net ''tok''
           [''id'', ''text''] [''views''] ''acme'' None None
         = Some (Inr combined, net_end)
       \<and> rows combined = [?tag @ one_thread_row @ [(''views'', JInt 7)], ?tag @ other_thread_row]
       \<and> map_of (?tag @ one_thread_row @ [(''views'', JInt 7)]) ''views'' = Some (JInt 7)
       \<and> map_of (?tag @ one_thread_row @ [(''views'', JInt 7)]) ''text'' = Some (JStr ''hello'')"
    by (intro exI conjI)
  with h1 h2 h3 h4 h5 two_threads_rows views_df_parts(2) h7 h8
  show ?thesis by (intro conjI)
qed

end
